theory Spec2Isabelle
  imports Main "HOL-Library.Sublist"
begin

section \<open>Python values used by the webhook handlers\<close>

text \<open>
  The handlers of \<^verbatim>\<open>patchback/event_handlers.py\<close> build branch names, refspecs and
  request bodies out of strings and one integer (the pull request number). Strings are
  modelled as \<^typ>\<open>string\<close>, read as the text is sent on the wire (UTF-8): the only
  non-ASCII literal of the source, the em dash of two check-run titles, is its three bytes.
  A slice such as \<^verbatim>\<open>pr_merge_commit[:8]\<close> is \<^const>\<open>take\<close>, which is Python's slice
  on every ASCII string (commit ids are hexadecimal).
\<close>

definition em_dash :: string where
  "em_dash = [CHR 0xE2, CHR 0x80, CHR 0x94]"

text \<open>\<^verbatim>\<open>str(n)\<close> for an integer, as the f-strings format \<^verbatim>\<open>pr_number\<close>.\<close>

definition digit_char :: "nat \<Rightarrow> char" where
  "digit_char d = ''0123456789'' ! d"

function str_nat :: "nat \<Rightarrow> string" where
  "str_nat n = (if n < 10 then [digit_char n] else str_nat (n div 10) @ [digit_char (n mod 10)])"
  by pat_completeness auto
termination
  by (relation "measure id") auto

declare str_nat.simps [simp del]

definition str_int :: "int \<Rightarrow> string" where
  "str_int i = (if i < 0 then CHR ''-'' # str_nat (nat (- i)) else str_nat (nat i))"

text \<open>\<^verbatim>\<open>s.startswith(p)\<close> and \<^verbatim>\<open>s.replace(c, r)\<close> for a one-character \<^verbatim>\<open>c\<close>.\<close>

definition startswith :: "string \<Rightarrow> string \<Rightarrow> bool" where
  "startswith s p = (take (length p) s = p)"

definition replace_char :: "char \<Rightarrow> string \<Rightarrow> string \<Rightarrow> string" where
  "replace_char c r s = concat (map (\<lambda>x. if x = c then r else [x]) s)"

text \<open>
  An f-string field whose value may be \<^verbatim>\<open>None\<close> (the body of a pull request is
  \<^verbatim>\<open>null\<close> in the payload when the author left it empty).
\<close>

definition format_optional :: "string option \<Rightarrow> string" where
  "format_optional v = (case v of None \<Rightarrow> ''None'' | Some s \<Rightarrow> s)"

text \<open>The \<^verbatim>\<open>data=\<close> dictionaries sent to the API, keys in the order of the source.\<close>

datatype json = JStr string | JBool bool | JObj "(string \<times> json) list"

subsection \<open>Exceptions\<close>

text \<open>
  Every exception carries the text \<^verbatim>\<open>str(err)\<close> gives. The classes are the ones the
  \<^verbatim>\<open>except\<close> clauses of the source name, with Python's subclassing: \<^verbatim>\<open>KeyError\<close> and
  \<^verbatim>\<open>IndexError\<close> are \<^verbatim>\<open>LookupError\<close>s, gidgethub's \<^verbatim>\<open>ValidationError\<close> is a
  \<^verbatim>\<open>BadRequest\<close> with status 422. A \<^verbatim>\<open>BadRequest\<close> carries its HTTP status code.
  \<open>OtherError\<close> stands for every class no clause names.
\<close>

datatype exn =
    KeyError string
  | IndexError string
  | LookupError string
  | PermissionError string
  | GitError string
  | ValidationError string
  | BadRequest nat string
  | OtherError string

fun str_exn :: "exn \<Rightarrow> string" where
  "str_exn (KeyError s) = s"
| "str_exn (IndexError s) = s"
| "str_exn (LookupError s) = s"
| "str_exn (PermissionError s) = s"
| "str_exn (GitError s) = s"
| "str_exn (ValidationError s) = s"
| "str_exn (BadRequest c s) = s"
| "str_exn (OtherError s) = s"

fun is_KeyError :: "exn \<Rightarrow> bool" where
  "is_KeyError (KeyError s) = True"
| "is_KeyError e = False"

fun is_LookupError :: "exn \<Rightarrow> bool" where
  "is_LookupError (KeyError s) = True"
| "is_LookupError (IndexError s) = True"
| "is_LookupError (LookupError s) = True"
| "is_LookupError e = False"

fun is_PermissionError :: "exn \<Rightarrow> bool" where
  "is_PermissionError (PermissionError s) = True"
| "is_PermissionError e = False"

fun is_GitError :: "exn \<Rightarrow> bool" where
  "is_GitError (GitError s) = True"
| "is_GitError e = False"

fun is_ValidationError :: "exn \<Rightarrow> bool" where
  "is_ValidationError (ValidationError s) = True"
| "is_ValidationError e = False"

fun is_BadRequest :: "exn \<Rightarrow> bool" where
  "is_BadRequest (ValidationError s) = True"
| "is_BadRequest (BadRequest c s) = True"
| "is_BadRequest e = False"

fun status_code :: "exn \<Rightarrow> nat option" where
  "status_code (ValidationError s) = Some 422"
| "status_code (BadRequest c s) = Some c"
| "status_code e = None"

definition FORBIDDEN :: nat where
  "FORBIDDEN = 403"

section \<open>Effects\<close>

text \<open>
  The handlers compute nothing by themselves: they call pygit2, the GitHub API client and
  the token provider in sequence. A run is the list of the calls made, in order, with what
  the run ends in: a value, or the exception that leaves the function. What each call
  answers is not in the repository; it is a parameter of the model (\<open>git_lib\<close>, \<open>runtime\<close>
  below), so every theorem holds for every behaviour of the libraries.
\<close>

record signature =
  sig_name :: string
  sig_email :: string

datatype commit =
  Commit (commit_oid: string) (commit_tree: string) (commit_parents: "commit list")
    (commit_author: signature) (commit_committer: signature) (commit_message: string)

record branch =
  branch_name :: string
  branch_target :: string

datatype event =
    TemporaryDirectory string string
  | Cleanup string
  | CloneRepository string string bool string
  | AddFetch string string
  | Fetch string
  | AddPush string string
  | RevparseSingle string
  | BranchesGetitem string
  | BranchesLocalCreate string commit
  | MergeBase string string
  | MergeTrees string branch commit
  | WriteTree nat
  | CreateCommit string signature signature string string "string list"
  | Push "string list" string
  | GetToken
  | ApiPost string "string option" json
  | ApiPatch string "string option" json

type_synonym 'a run = "event list \<times> (exn + 'a)"

definition done_run :: "'a \<Rightarrow> 'a run" where
  "done_run x = ([], Inr x)"

definition raise_run :: "exn \<Rightarrow> 'a run" where
  "raise_run e = ([], Inl e)"

definition call :: "event \<Rightarrow> exn + 'a \<Rightarrow> 'a run" where
  "call ev answer = ([ev], answer)"

text \<open>
  \<^verbatim>\<open>try: m  except: h  else: k\<close>, where the handler and the \<^verbatim>\<open>else\<close> branch carry the rest
  of the function: \<open>h\<close> ends the run with what it returns or raises.
\<close>

definition try_except :: "'a run \<Rightarrow> (exn \<Rightarrow> 'b run) \<Rightarrow> ('a \<Rightarrow> 'b run) \<Rightarrow> 'b run" where
  "try_except m h k =
     (case m of
        (es, Inl e) \<Rightarrow> (case h e of (es', r) \<Rightarrow> (es @ es', r))
      | (es, Inr x) \<Rightarrow> (case k x of (es', r) \<Rightarrow> (es @ es', r)))"

text \<open>Sequencing: an exception of the first statement leaves the function.\<close>

definition then_run :: "'a run \<Rightarrow> ('a \<Rightarrow> 'b run) \<Rightarrow> 'b run" where
  "then_run m k = try_except m raise_run k"

text \<open>The exit of a \<^verbatim>\<open>with\<close> block: the clean-up happens on every path.\<close>

definition finally_run :: "'a run \<Rightarrow> event \<Rightarrow> 'a run" where
  "finally_run m ev = (case m of (es, r) \<Rightarrow> (es @ [ev], r))"

text \<open>\<^verbatim>\<open>xs[0]\<close>: the first item, or \<^verbatim>\<open>IndexError\<close> on the empty list.\<close>

definition getitem_0 :: "'a list \<Rightarrow> 'a run" where
  "getitem_0 xs =
     (case xs of [] \<Rightarrow> raise_run (IndexError ''list index out of range'') | x # _ \<Rightarrow> done_run x)"

section \<open>The backport executor: \<^verbatim>\<open>backport_pr_sync\<close>\<close>

text \<open>
  What pygit2 and \<^verbatim>\<open>tempfile\<close> answer. \<open>branches_getitem\<close> is
  \<^verbatim>\<open>repo.branches[name].peel()\<close>: the commit the branch points at, or the exception of
  the lookup. A call that returns nothing the source uses answers \<open>Inr ()\<close>.
\<close>

record git_lib =
  mkdtemp :: "string \<Rightarrow> string \<Rightarrow> exn + string"
  clone_repository :: "string \<Rightarrow> string \<Rightarrow> string \<Rightarrow> exn + unit"
  remotes_add_fetch :: "string \<Rightarrow> string \<Rightarrow> exn + unit"
  remote_fetch :: "string \<Rightarrow> exn + unit"
  remotes_add_push :: "string \<Rightarrow> string \<Rightarrow> exn + unit"
  revparse_single :: "string \<Rightarrow> exn + commit"
  branches_getitem :: "string \<Rightarrow> exn + commit"
  branches_local_create :: "string \<Rightarrow> commit \<Rightarrow> exn + unit"
  merge_base :: "string \<Rightarrow> string \<Rightarrow> exn + string option"
  merge_trees :: "string \<Rightarrow> branch \<Rightarrow> commit \<Rightarrow> exn + nat"
  write_tree :: "nat \<Rightarrow> exn + string"
  create_commit ::
    "string \<Rightarrow> signature \<Rightarrow> signature \<Rightarrow> string \<Rightarrow> string \<Rightarrow> string list \<Rightarrow> exn + string"
  remote_push :: "string list \<Rightarrow> string \<Rightarrow> exn + unit"

text \<open>Lines 52-55: the name of the branch the backport goes to.\<close>

definition backport_pr_branch :: "int \<Rightarrow> string \<Rightarrow> string \<Rightarrow> string" where
  "backport_pr_branch pr_number merge_commit_sha target_branch =
     ''patchback/backports/'' @ target_branch @ ''/'' @ merge_commit_sha @ ''/pr'' @ str_int pr_number"

definition bot_signature :: signature where
  "bot_signature = \<lparr>sig_name = ''Patchback'', sig_email = ''patchback@sanitizers.bot''\<rparr>"

definition push_denied_message :: "string \<Rightarrow> string" where
  "push_denied_message repo_remote =
     ''Current GitHub App installation does not grant sufficient privileges for pushing to ''
     @ repo_remote @ ''. `Contents: write` permission is necessary to fix this.''"

text \<open>
  Lines 66-143, the body of the \<^verbatim>\<open>with\<close> block. The branch object that
  \<^verbatim>\<open>repo.branches.local.create\<close> returns has the full reference name and points at the
  commit it was created at. \<^verbatim>\<open>base\<close> (line 111) is computed and never read.
\<close>

definition backport_in_tmp_dir ::
  "git_lib \<Rightarrow> int \<Rightarrow> string \<Rightarrow> string \<Rightarrow> string \<Rightarrow> string \<Rightarrow> string \<Rightarrow> unit run" where
  "backport_in_tmp_dir g pr_number merge_commit_sha target_branch repo_remote
       installation_access_token tmp_dir =
    (let pr = str_int pr_number;
         name = backport_pr_branch pr_number merge_commit_sha target_branch
     in
     try_except
       (call (CloneRepository repo_remote tmp_dir True installation_access_token)
          (clone_repository g repo_remote tmp_dir installation_access_token))
       (\<lambda>key_err.
          if is_KeyError key_err
          then raise_run (LookupError (''Failed to check out branch '' @ target_branch))
          else raise_run key_err)
       (\<lambda>_.
     then_run
       (call (AddFetch ''origin'' (''+refs/pull/'' @ pr @ ''/merge:refs/merge/origin/'' @ pr))
          (remotes_add_fetch g ''origin''
             (''+refs/pull/'' @ pr @ ''/merge:refs/merge/origin/'' @ pr)))
       (\<lambda>_.
     then_run
       (call (AddFetch ''origin'' (''+refs/pull/'' @ pr @ ''/head:refs/pull/origin/'' @ pr))
          (remotes_add_fetch g ''origin''
             (''+refs/pull/'' @ pr @ ''/head:refs/pull/origin/'' @ pr)))
       (\<lambda>_.
     then_run
       (call (Fetch installation_access_token) (remote_fetch g installation_access_token))
       (\<lambda>_.
     then_run
       (call (AddPush ''origin'' (target_branch @ '':'' @ name))
          (remotes_add_push g ''origin'' (target_branch @ '':'' @ name)))
       (\<lambda>_.
     then_run
       (call (RevparseSingle merge_commit_sha) (revparse_single g merge_commit_sha))
       (\<lambda>cherry.
     then_run
       (call (BranchesGetitem (''origin/'' @ target_branch))
          (branches_getitem g (''origin/'' @ target_branch)))
       (\<lambda>tip.
     then_run
       (call (BranchesLocalCreate name tip) (branches_local_create g name tip))
       (\<lambda>_.
     let backport_branch =
           \<lparr>branch_name = ''refs/heads/'' @ name, branch_target = commit_oid tip\<rparr>
     in
     then_run
       (call (MergeBase (commit_oid cherry) (branch_target backport_branch))
          (merge_base g (commit_oid cherry) (branch_target backport_branch)))
       (\<lambda>base.
     then_run (getitem_0 (commit_parents cherry))
       (\<lambda>first_parent.
     let base_tree = commit_tree first_parent in
     then_run
       (call (MergeTrees base_tree backport_branch cherry)
          (merge_trees g base_tree backport_branch cherry))
       (\<lambda>index.
     then_run
       (call (WriteTree index) (write_tree g index))
       (\<lambda>tree_id.
     let author = commit_author cherry;
         committer = bot_signature
     in
     then_run
       (call (CreateCommit (branch_name backport_branch) author committer
                (commit_message cherry) tree_id [branch_target backport_branch])
          (create_commit g (branch_name backport_branch) author committer
                (commit_message cherry) tree_id [branch_target backport_branch]))
       (\<lambda>_.
     try_except
       (call (Push [''HEAD:refs/heads/'' @ name] installation_access_token)
          (remote_push g [''HEAD:refs/heads/'' @ name] installation_access_token))
       (\<lambda>pg2_err.
          if is_GitError pg2_err
          then (if str_exn pg2_err \<noteq> ''unexpected http status code: 403''
                then raise_run pg2_err
                else raise_run (PermissionError (push_denied_message repo_remote)))
          else raise_run pg2_err)
       (\<lambda>_. done_run ())))))))))))))))"

text \<open>Lines 41-145: the temporary directory around the body, and the value returned.\<close>

definition backport_pr_sync ::
  "git_lib \<Rightarrow> int \<Rightarrow> string \<Rightarrow> string \<Rightarrow> string \<Rightarrow> string \<Rightarrow> string \<Rightarrow> string run" where
  "backport_pr_sync g pr_number merge_commit_sha target_branch repo_slug repo_remote
       installation_access_token =
    (let prefix = replace_char CHR ''/'' ''--'' repo_slug @ ''---'' @ target_branch @ ''---'';
         suffix = ''---PR-'' @ str_int pr_number @ ''.git''
     in
     then_run (call (TemporaryDirectory prefix suffix) (mkdtemp g prefix suffix))
       (\<lambda>tmp_dir.
     then_run
       (finally_run
          (backport_in_tmp_dir g pr_number merge_commit_sha target_branch repo_remote
             installation_access_token tmp_dir)
          (Cleanup tmp_dir))
       (\<lambda>_. done_run (backport_pr_branch pr_number merge_commit_sha target_branch))))"

section \<open>The orchestrator: \<^verbatim>\<open>process_pr_backport_labels\<close>\<close>

text \<open>
  What the API client, the token provider and the clock answer. The client's \<^verbatim>\<open>post\<close>
  answers the identifier of the check run on the check-runs URI and the \<^verbatim>\<open>html_url\<close>
  of the pull request on the pulls URI: the two fields the source reads. The clock is read
  at most twice in a run, for \<^verbatim>\<open>started_at\<close> (reading 0) and for \<^verbatim>\<open>completed_at\<close>
  (reading 1). Logging is left out.
\<close>

record runtime =
  git :: git_lib
  post_check_run :: "string \<Rightarrow> json \<Rightarrow> exn + int"
  patch_check_run :: "string \<Rightarrow> json \<Rightarrow> exn + unit"
  post_pull :: "string \<Rightarrow> json \<Rightarrow> exn + string"
  get_token :: "exn + string"
  utcnow_isoformat :: "nat \<Rightarrow> string"

text \<open>Lines 247-266: the URI and the name of the check run, and its first request.\<close>

definition check_runs_base_uri :: "string \<Rightarrow> string" where
  "check_runs_base_uri repo_slug = ''/repos/'' @ repo_slug @ ''/check-runs''"

definition check_run_name :: "string \<Rightarrow> string" where
  "check_run_name target_branch = ''Backport to '' @ target_branch"

definition check_run_queued :: "runtime \<Rightarrow> string \<Rightarrow> string \<Rightarrow> json" where
  "check_run_queued rt target_branch pr_head_ref =
     JObj [(''name'', JStr (check_run_name target_branch)),
           (''head_sha'', JStr pr_head_ref),
           (''status'', JStr ''queued''),
           (''started_at'', JStr (utcnow_isoformat rt 0 @ ''Z''))]"

definition check_completed ::
  "string \<Rightarrow> string \<Rightarrow> string \<Rightarrow> string \<Rightarrow> string \<Rightarrow> string \<Rightarrow> json" where
  "check_completed name conclusion completed_at output_title output_text output_summary =
     JObj [(''name'', JStr name),
           (''status'', JStr ''completed''),
           (''conclusion'', JStr conclusion),
           (''completed_at'', JStr completed_at),
           (''output'', JObj [(''title'', JStr output_title),
                              (''text'', JStr output_text),
                              (''summary'', JStr output_summary)])]"

text \<open>Lines 288-291 and 362-370: the two requests that leave the check run in progress.\<close>

definition check_in_progress :: "string \<Rightarrow> json" where
  "check_in_progress name = JObj [(''name'', JStr name), (''status'', JStr ''in_progress'')]"

definition check_cherry_picked :: "string \<Rightarrow> string \<Rightarrow> json" where
  "check_cherry_picked name backport_branch_name =
     JObj [(''name'', JStr name),
           (''status'', JStr ''in_progress''),
           (''output'',
            JObj [(''title'', JStr (name @ '': cherry-pick succeeded'')),
                  (''text'', JStr ''PR branch created, proceeding with making a PR.''),
                  (''summary'', JStr (''Backport PR branch: `'' @ backport_branch_name))])]"

text \<open>
  \<^verbatim>\<open>if use_checks_api: await gh_api.patch(...)\<close>, and in a handler
  \<^verbatim>\<open>if not use_checks_api: return\<close> before the patch. \<open>chk\<close> is
  \<^verbatim>\<open>check_runs_updates_uri\<close> when \<^verbatim>\<open>use_checks_api\<close> is true, and \<open>None\<close> when it is
  false.
\<close>

definition patch_if_enabled :: "runtime \<Rightarrow> string option \<Rightarrow> json \<Rightarrow> unit run" where
  "patch_if_enabled rt chk data =
     (case chk of
        None \<Rightarrow> done_run ()
      | Some check_runs_updates_uri \<Rightarrow>
          call (ApiPatch check_runs_updates_uri (Some ''antiope'') data)
            (patch_check_run rt check_runs_updates_uri data))"

text \<open>
  Lines 268-272 and 415-419: the condition under which a \<^verbatim>\<open>BadRequest\<close> is raised again.
\<close>

definition reraised :: "exn \<Rightarrow> bool" where
  "reraised bad_req_err =
     (status_code bad_req_err \<noteq> Some FORBIDDEN
      \<or> str_exn bad_req_err \<noteq> ''Resource not accessible by integration'')"

definition pull_request_data ::
  "int \<Rightarrow> string \<Rightarrow> string option \<Rightarrow> string \<Rightarrow> string \<Rightarrow> string \<Rightarrow> string \<Rightarrow> json" where
  "pull_request_data pr_number pr_title pr_body pr_base_ref pr_merge_commit target_branch
       backport_branch_name =
     JObj [(''title'', JStr (''[PR #'' @ str_int pr_number @ ''/'' @ take 8 pr_merge_commit
                             @ '' backport]['' @ target_branch @ ''] '' @ pr_title)),
           (''head'', JStr backport_branch_name),
           (''base'', JStr target_branch),
           (''body'', JStr (''**This is a backport of PR #'' @ str_int pr_number
                            @ '' as merged into '' @ pr_base_ref @ '' ('' @ pr_merge_commit
                            @ '').**'' @ [CHR 0x0A, CHR 0x0A] @ format_optional pr_body)),
           (''maintainer_can_modify'', JBool True),
           (''draft'', JBool False)]"

text \<open>Lines 373-464: the pull request, and the end of the check run.\<close>

definition create_backport_pr ::
  "runtime \<Rightarrow> int \<Rightarrow> string \<Rightarrow> string option \<Rightarrow> string \<Rightarrow> string \<Rightarrow> string \<Rightarrow> string
     \<Rightarrow> string option \<Rightarrow> string \<Rightarrow> unit run" where
  "create_backport_pr rt pr_number pr_title pr_body pr_base_ref pr_merge_commit target_branch
       pr_api_url chk backport_branch_name =
    (let data = pull_request_data pr_number pr_title pr_body pr_base_ref pr_merge_commit
                  target_branch backport_branch_name;
         completed_at = utcnow_isoformat rt 1 @ ''Z''
     in
     try_except (call (ApiPost pr_api_url None data) (post_pull rt pr_api_url data))
       (\<lambda>err.
          if is_ValidationError err
          then patch_if_enabled rt chk
                 (check_completed (check_run_name target_branch) ''neutral'' completed_at
                    (check_run_name target_branch @ '': creation of the backport PR failed'')
                    []
                    (''Backport PR branch: `'' @ backport_branch_name
                     @ [CHR 0x0A, CHR 0x0A] @ str_exn err))
          else if is_BadRequest err
          then (if reraised err then raise_run err
                else patch_if_enabled rt chk
                       (check_completed (check_run_name target_branch) ''neutral'' completed_at
                          (check_run_name target_branch @ '': creation of the backport PR failed'')
                          []
                          (''Backport PR branch: `'' @ backport_branch_name
                           @ [CHR 0x0A, CHR 0x0A] @ str_exn err)))
          else raise_run err)
       (\<lambda>html_url.
          patch_if_enabled rt chk
            (check_completed (check_run_name target_branch) ''success'' completed_at
               (check_run_name target_branch @ '': backport PR created'')
               (''Backported as '' @ html_url)
               (''Backport PR branch: `'' @ backport_branch_name))))"

text \<open>
  Lines 284-371: the check run goes in progress, the executor runs with a fresh token (the
  token is fetched inside the \<^verbatim>\<open>try\<close>, as an argument of the call), and its failures are
  sorted by class.
\<close>

definition run_backport ::
  "runtime \<Rightarrow> int \<Rightarrow> string \<Rightarrow> string option \<Rightarrow> string \<Rightarrow> string \<Rightarrow> string \<Rightarrow> string
     \<Rightarrow> string \<Rightarrow> string \<Rightarrow> string option \<Rightarrow> unit run" where
  "run_backport rt pr_number pr_title pr_body pr_base_ref pr_merge_commit target_branch
       pr_api_url repo_slug git_url chk =
    (let completed_at = utcnow_isoformat rt 1 @ ''Z'' in
     then_run
       (patch_if_enabled rt chk
          (check_in_progress (check_run_name target_branch)))
       (\<lambda>_.
     try_except
       (then_run (call GetToken (get_token rt))
          (\<lambda>token. backport_pr_sync (git rt) pr_number pr_merge_commit target_branch
                      repo_slug git_url token))
       (\<lambda>err.
          if is_LookupError err
          then patch_if_enabled rt chk
                 (check_completed (check_run_name target_branch) ''neutral'' completed_at
                    (check_run_name target_branch @ '': cherry-picking failed '' @ em_dash
                     @ '' target branch does not exist'')
                    []
                    (str_exn err))
          else if is_PermissionError err
          then patch_if_enabled rt chk
                 (check_completed (check_run_name target_branch) ''neutral'' completed_at
                    (check_run_name target_branch @ '': cherry-picking failed '' @ em_dash
                     @ '' could not push'')
                    []
                    (str_exn err))
          else raise_run err)
       (\<lambda>backport_branch_name.
     then_run
       (patch_if_enabled rt chk
          (check_cherry_picked (check_run_name target_branch) backport_branch_name))
       (\<lambda>_.
     create_backport_pr rt pr_number pr_title pr_body pr_base_ref pr_merge_commit
       target_branch pr_api_url chk backport_branch_name))))"

text \<open>Lines 235-283: the check run is created, or reporting is switched off.\<close>

definition process_pr_backport_labels ::
  "runtime \<Rightarrow> int \<Rightarrow> string \<Rightarrow> string option \<Rightarrow> string \<Rightarrow> string \<Rightarrow> string \<Rightarrow> string
     \<Rightarrow> string \<Rightarrow> string \<Rightarrow> string \<Rightarrow> unit run" where
  "process_pr_backport_labels rt pr_number pr_title pr_body pr_base_ref pr_head_ref
       pr_merge_commit target_branch pr_api_url repo_slug git_url =
     try_except
       (call (ApiPost (check_runs_base_uri repo_slug) (Some ''antiope'')
                (check_run_queued rt target_branch pr_head_ref))
          (post_check_run rt (check_runs_base_uri repo_slug)
             (check_run_queued rt target_branch pr_head_ref)))
       (\<lambda>bad_req_err.
          if is_BadRequest bad_req_err
          then (if reraised bad_req_err then raise_run bad_req_err
                else run_backport rt pr_number pr_title pr_body pr_base_ref pr_merge_commit
                       target_branch pr_api_url repo_slug git_url None)
          else raise_run bad_req_err)
       (\<lambda>check_run_id.
          run_backport rt pr_number pr_title pr_body pr_base_ref pr_merge_commit
            target_branch pr_api_url repo_slug git_url
            (Some (check_runs_base_uri repo_slug @ ''/'' @ str_int check_run_id)))"

section \<open>The merge handler: \<^verbatim>\<open>on_merge_of_labeled_pr\<close>\<close>

definition BACKPORT_LABEL_PREFIX :: string where
  "BACKPORT_LABEL_PREFIX = ''backport-''"

definition BACKPORT_LABEL_LEN :: nat where
  "BACKPORT_LABEL_LEN = length BACKPORT_LABEL_PREFIX"

record pull_request =
  pull_merged :: bool
  pull_labels :: "string list"
  pull_merge_commit_sha :: string
  pull_title :: string
  pull_body :: "string option"
  pull_base_ref :: string
  pull_head_ref :: string

record repository =
  repo_pulls_url :: string
  repo_full_name :: string
  repo_clone_url :: string

text \<open>Lines 159-163: the target branches, one for each backport label, in label order.\<close>

definition target_branches :: "pull_request \<Rightarrow> string list" where
  "target_branches pr =
     map (drop BACKPORT_LABEL_LEN)
       (filter (\<lambda>label. startswith label BACKPORT_LABEL_PREFIX) (pull_labels pr))"

text \<open>Lines 178-189: the body of the loop, for one target branch.\<close>

definition backport_to ::
  "runtime \<Rightarrow> int \<Rightarrow> pull_request \<Rightarrow> repository \<Rightarrow> string \<Rightarrow> unit run" where
  "backport_to rt number pr repo target_branch =
     process_pr_backport_labels rt number (pull_title pr) (pull_body pr) (pull_base_ref pr)
       (pull_head_ref pr) (pull_merge_commit_sha pr) target_branch (repo_pulls_url repo)
       (repo_full_name repo) (repo_clone_url repo)"

text \<open>Lines 177-189: the loop over the target branches.\<close>

fun process_target_branches ::
  "runtime \<Rightarrow> int \<Rightarrow> pull_request \<Rightarrow> repository \<Rightarrow> string list \<Rightarrow> unit run" where
  "process_target_branches rt number pr repo [] = done_run ()"
| "process_target_branches rt number pr repo (target_branch # rest) =
     then_run (backport_to rt number pr repo target_branch)
       (\<lambda>_. process_target_branches rt number pr repo rest)"

text \<open>Lines 27-38 and 148-189: the handler under its \<^verbatim>\<open>ensure_pr_merged\<close> decorator.\<close>

definition on_merge_of_labeled_pr ::
  "runtime \<Rightarrow> int \<Rightarrow> pull_request \<Rightarrow> repository \<Rightarrow> unit run" where
  "on_merge_of_labeled_pr rt number pr repo =
     (if \<not> pull_merged pr then done_run ()
      else if target_branches pr = [] then done_run ()
      else process_target_branches rt number pr repo (target_branches pr))"

section \<open>Vocabulary of the properties\<close>

text \<open>
  The request that creates the pull request is the one \<^verbatim>\<open>post\<close> without a preview API
  version; every \<^verbatim>\<open>patch\<close> is a status call on the check run, and the terminal ones are
  those that send the status \<^verbatim>\<open>completed\<close>.
\<close>

fun is_pull_request_post :: "event \<Rightarrow> bool" where
  "is_pull_request_post (ApiPost uri None data) = True"
| "is_pull_request_post ev = False"

fun is_status_call :: "event \<Rightarrow> bool" where
  "is_status_call (ApiPatch uri preview data) = True"
| "is_status_call ev = False"

fun is_git_call :: "event \<Rightarrow> bool" where
  "is_git_call GetToken = False"
| "is_git_call (ApiPost uri preview data) = False"
| "is_git_call (ApiPatch uri preview data) = False"
| "is_git_call ev = True"

fun json_field :: "json \<Rightarrow> string \<Rightarrow> json option" where
  "json_field (JObj items) key = map_of items key"
| "json_field v key = None"

fun is_terminal :: "event \<Rightarrow> bool" where
  "is_terminal (ApiPatch uri preview data) = (json_field data ''status'' = Some (JStr ''completed''))"
| "is_terminal ev = False"

fun is_success :: "event \<Rightarrow> bool" where
  "is_success (ApiPatch uri preview data) =
     (json_field data ''status'' = Some (JStr ''completed'')
      \<and> json_field data ''conclusion'' = Some (JStr ''success''))"
| "is_success ev = False"

fun is_neutral :: "event \<Rightarrow> bool" where
  "is_neutral (ApiPatch uri preview data) =
     (json_field data ''status'' = Some (JStr ''completed'')
      \<and> json_field data ''conclusion'' = Some (JStr ''neutral''))"
| "is_neutral ev = False"

fun is_merge_trees :: "event \<Rightarrow> bool" where
  "is_merge_trees (MergeTrees base ours theirs) = True"
| "is_merge_trees ev = False"

fun is_create_commit :: "event \<Rightarrow> bool" where
  "is_create_commit (CreateCommit ref author committer message tree parents) = True"
| "is_create_commit ev = False"

section \<open>Example runs\<close>

text \<open>
  A small world to run the handlers in: the merge commit \<open>3f2c9a1b77\<close> of a pull request
  with one parent, release branches \<open>v1.2\<close> and \<open>v1.3\<close> on the remote and no other, and a
  push whose answer is a parameter.
\<close>

definition demo_author :: signature where
  "demo_author = \<lparr>sig_name = ''Ada'', sig_email = ''ada@example.org''\<rparr>"

definition demo_parent :: commit where
  "demo_parent = Commit ''1111'' ''tree-parent'' [] demo_author demo_author ''Earlier change''"

definition demo_cherry :: commit where
  "demo_cherry =
     Commit ''3f2c9a1b77'' ''tree-cherry'' [demo_parent] demo_author demo_author ''Fix overflow''"

definition demo_tip :: commit where
  "demo_tip = Commit ''2222'' ''tree-tip'' [] demo_author demo_author ''Release''"

definition demo_git :: "(string list \<Rightarrow> string \<Rightarrow> exn + unit) \<Rightarrow> git_lib" where
  "demo_git push =
     \<lparr>mkdtemp = (\<lambda>prefix suffix. Inr (''/tmp/'' @ prefix @ ''x'' @ suffix)),
      clone_repository = (\<lambda>url path token. Inr ()),
      remotes_add_fetch = (\<lambda>remote refspec. Inr ()),
      remote_fetch = (\<lambda>token. Inr ()),
      remotes_add_push = (\<lambda>remote refspec. Inr ()),
      revparse_single =
        (\<lambda>rev. if rev = ''3f2c9a1b77'' then Inr demo_cherry else Inl (KeyError rev)),
      branches_getitem =
        (\<lambda>name. if name = ''origin/v1.2'' \<or> name = ''origin/v1.3'' then Inr demo_tip
                 else Inl (KeyError (''Branch not found: '' @ name))),
      branches_local_create = (\<lambda>name c. Inr ()),
      merge_base = (\<lambda>a b. Inr None),
      merge_trees = (\<lambda>base ours theirs. Inr 0),
      write_tree = (\<lambda>index. Inr ''tree-merged''),
      create_commit = (\<lambda>ref author committer message tree parents. Inr ''4444''),
      remote_push = push\<rparr>"

definition push_ok :: "string list \<Rightarrow> string \<Rightarrow> exn + unit" where
  "push_ok refspecs token = Inr ()"

definition push_forbidden :: "string list \<Rightarrow> string \<Rightarrow> exn + unit" where
  "push_forbidden refspecs token = Inl (GitError ''unexpected http status code: 403'')"

definition push_broken_for_v1_2 :: "string list \<Rightarrow> string \<Rightarrow> exn + unit" where
  "push_broken_for_v1_2 refspecs token =
     (if refspecs = [''HEAD:refs/heads/patchback/backports/v1.2/3f2c9a1b77/pr5'']
      then Inl (GitError ''connection reset'') else Inr ())"

definition demo_runtime :: "git_lib \<Rightarrow> exn + int \<Rightarrow> runtime" where
  "demo_runtime g check_run =
     \<lparr>git = g,
      post_check_run = (\<lambda>uri data. check_run),
      patch_check_run = (\<lambda>uri data. Inr ()),
      post_pull = (\<lambda>uri data. Inr ''https://github.com/o/r/pull/43''),
      get_token = Inr ''token'',
      utcnow_isoformat = (\<lambda>reading. if reading = 0 then ''2020-01-01T00:00:00''
                                      else ''2020-01-01T00:00:09'')\<rparr>"

definition demo_pull_request :: "string list \<Rightarrow> pull_request" where
  "demo_pull_request label_names =
     \<lparr>pull_merged = True, pull_labels = label_names,
      pull_merge_commit_sha = ''3f2c9a1b77'', pull_title = ''Fix overflow'',
      pull_body = Some ''Details.'', pull_base_ref = ''main'',
      pull_head_ref = ''fix-overflow''\<rparr>"

definition demo_repository :: repository where
  "demo_repository =
     \<lparr>repo_pulls_url = ''https://api.github.com/repos/o/r/pulls'',
      repo_full_name = ''o/r'', repo_clone_url = ''https://github.com/o/r.git''\<rparr>"

text \<open>The calls of the body of the executor when no call fails, in the order of the source.\<close>

definition cherry_pick_calls ::
  "int \<Rightarrow> string \<Rightarrow> string \<Rightarrow> string \<Rightarrow> string \<Rightarrow> string \<Rightarrow> commit \<Rightarrow> commit \<Rightarrow> commit
     \<Rightarrow> nat \<Rightarrow> string \<Rightarrow> event list" where
  "cherry_pick_calls n sha T remote tok tmp cherry tip first_parent index tree_id =
     [CloneRepository remote tmp True tok,
      AddFetch ''origin''
        (''+refs/pull/'' @ str_int n @ ''/merge:refs/merge/origin/'' @ str_int n),
      AddFetch ''origin''
        (''+refs/pull/'' @ str_int n @ ''/head:refs/pull/origin/'' @ str_int n),
      Fetch tok,
      AddPush ''origin'' (T @ '':'' @ backport_pr_branch n sha T),
      RevparseSingle sha,
      BranchesGetitem (''origin/'' @ T),
      BranchesLocalCreate (backport_pr_branch n sha T) tip,
      MergeBase (commit_oid cherry) (commit_oid tip),
      MergeTrees (commit_tree first_parent)
        \<lparr>branch_name = ''refs/heads/'' @ backport_pr_branch n sha T,
         branch_target = commit_oid tip\<rparr>
        cherry,
      WriteTree index,
      CreateCommit (''refs/heads/'' @ backport_pr_branch n sha T) (commit_author cherry)
        bot_signature (commit_message cherry) tree_id [commit_oid tip],
      Push [''HEAD:refs/heads/'' @ backport_pr_branch n sha T] tok]"

definition tmp_prefix :: "string \<Rightarrow> string \<Rightarrow> string" where
  "tmp_prefix repo_slug target_branch =
     replace_char CHR ''/'' ''--'' repo_slug @ ''---'' @ target_branch @ ''---''"

definition tmp_suffix :: "int \<Rightarrow> string" where
  "tmp_suffix pr_number = ''---PR-'' @ str_int pr_number @ ''.git''"

section \<open>Evaluating runs\<close>

lemma fst_done_run: "fst (done_run x) = []"
  by (simp add: done_run_def)

lemma snd_done_run: "snd (done_run x) = Inr x"
  by (simp add: done_run_def)

lemma fst_raise_run: "fst (raise_run e) = []"
  by (simp add: raise_run_def)

lemma snd_raise_run: "snd (raise_run e) = Inl e"
  by (simp add: raise_run_def)

lemma fst_call: "fst (call ev r) = [ev]"
  by (simp add: call_def)

lemma snd_call: "snd (call ev r) = r"
  by (simp add: call_def)

lemma fst_try_except:
  "fst (try_except m h k) = fst m @ (case snd m of Inl e \<Rightarrow> fst (h e) | Inr x \<Rightarrow> fst (k x))"
  by (simp add: try_except_def split: prod.splits sum.splits)

lemma snd_try_except:
  "snd (try_except m h k) = (case snd m of Inl e \<Rightarrow> snd (h e) | Inr x \<Rightarrow> snd (k x))"
  by (simp add: try_except_def split: prod.splits sum.splits)

lemma fst_then_run:
  "fst (then_run m k) = fst m @ (case snd m of Inl e \<Rightarrow> [] | Inr x \<Rightarrow> fst (k x))"
  by (simp add: then_run_def fst_try_except fst_raise_run split: sum.splits)

lemma snd_then_run:
  "snd (then_run m k) = (case snd m of Inl e \<Rightarrow> Inl e | Inr x \<Rightarrow> snd (k x))"
  by (simp add: then_run_def snd_try_except snd_raise_run split: sum.splits)

lemma fst_finally_run: "fst (finally_run m ev) = fst m @ [ev]"
  by (simp add: finally_run_def split: prod.splits)

lemma snd_finally_run: "snd (finally_run m ev) = snd m"
  by (simp add: finally_run_def split: prod.splits)

lemma fst_getitem_0: "fst (getitem_0 xs) = []"
  by (cases xs) (simp_all add: getitem_0_def fst_raise_run fst_done_run)

lemma snd_getitem_0_Cons: "snd (getitem_0 (x # xs)) = Inr x"
  by (simp add: getitem_0_def snd_done_run)

lemma snd_getitem_0_Nil: "snd (getitem_0 []) = Inl (IndexError ''list index out of range'')"
  by (simp add: getitem_0_def snd_raise_run)

lemmas run_simps =
  fst_done_run snd_done_run fst_raise_run snd_raise_run fst_call snd_call
  fst_try_except snd_try_except fst_then_run snd_then_run fst_finally_run snd_finally_run
  fst_getitem_0 snd_getitem_0_Cons snd_getitem_0_Nil

lemma snd_getitem_0_Inr: "snd (getitem_0 xs) = Inr x \<longleftrightarrow> (\<exists>rest. xs = x # rest)"
  by (cases xs) (simp_all add: getitem_0_def snd_raise_run snd_done_run)

lemma snd_then_run_Inr:
  "snd (then_run m k) = Inr b \<longleftrightarrow> (\<exists>x. snd m = Inr x \<and> snd (k x) = Inr b)"
  by (simp add: snd_then_run split: sum.splits)

lemma snd_try_except_Inr:
  "snd (try_except m h k) = Inr b \<longleftrightarrow>
     (\<exists>e. snd m = Inl e \<and> snd (h e) = Inr b) \<or> (\<exists>x. snd m = Inr x \<and> snd (k x) = Inr b)"
  by (simp add: snd_try_except split: sum.splits)

section \<open>Strings\<close>












section \<open>The executor when it returns\<close>

lemma backport_in_tmp_dir_success:
  assumes "snd (backport_in_tmp_dir g n sha T remote tok tmp) = Inr u"
  shows "\<exists>cherry tip first_parent rest index tree_id.
      revparse_single g sha = Inr cherry \<and>
      branches_getitem g (''origin/'' @ T) = Inr tip \<and>
      commit_parents cherry = first_parent # rest \<and>
      merge_trees g (commit_tree first_parent)
        \<lparr>branch_name = ''refs/heads/'' @ backport_pr_branch n sha T,
         branch_target = commit_oid tip\<rparr>
        cherry = Inr index \<and>
      write_tree g index = Inr tree_id \<and>
      remote_push g [''HEAD:refs/heads/'' @ backport_pr_branch n sha T] tok = Inr () \<and>
      fst (backport_in_tmp_dir g n sha T remote tok tmp) =
        cherry_pick_calls n sha T remote tok tmp cherry tip first_parent index tree_id"
proof -
  from assms obtain cherry tip first_parent rest index tree_id mb new_oid where
    f: "clone_repository g remote tmp tok = Inr ()"
       "remotes_add_fetch g ''origin''
          (''+refs/pull/'' @ str_int n @ ''/merge:refs/merge/origin/'' @ str_int n) = Inr ()"
       "remotes_add_fetch g ''origin''
          (''+refs/pull/'' @ str_int n @ ''/head:refs/pull/origin/'' @ str_int n) = Inr ()"
       "remote_fetch g tok = Inr ()"
       "remotes_add_push g ''origin'' (T @ '':'' @ backport_pr_branch n sha T) = Inr ()"
       "revparse_single g sha = Inr cherry"
       "branches_getitem g (''origin/'' @ T) = Inr tip"
       "branches_local_create g (backport_pr_branch n sha T) tip = Inr ()"
       "merge_base g (commit_oid cherry) (commit_oid tip) = Inr mb"
       "commit_parents cherry = first_parent # rest"
       "merge_trees g (commit_tree first_parent)
          \<lparr>branch_name = ''refs/heads/'' @ backport_pr_branch n sha T,
           branch_target = commit_oid tip\<rparr>
          cherry = Inr index"
       "write_tree g index = Inr tree_id"
       "create_commit g (''refs/heads/'' @ backport_pr_branch n sha T) (commit_author cherry)
           bot_signature (commit_message cherry) tree_id [commit_oid tip] = Inr new_oid"
       "remote_push g [''HEAD:refs/heads/'' @ backport_pr_branch n sha T] tok = Inr ()"
    unfolding backport_in_tmp_dir_def Let_def
    by (auto simp add: snd_then_run_Inr snd_try_except_Inr snd_call snd_raise_run snd_done_run
          snd_getitem_0_Inr split: if_splits)
  have "fst (backport_in_tmp_dir g n sha T remote tok tmp) =
        cherry_pick_calls n sha T remote tok tmp cherry tip first_parent index tree_id"
    unfolding backport_in_tmp_dir_def Let_def cherry_pick_calls_def
    using f by (simp add: run_simps)
  with f show ?thesis by blast
qed

lemma backport_pr_sync_success:
  assumes "snd (backport_pr_sync g n sha T slug remote tok) = Inr b"
  shows "b = backport_pr_branch n sha T \<and>
    (\<exists>tmp cherry tip first_parent rest index tree_id.
      revparse_single g sha = Inr cherry \<and>
      branches_getitem g (''origin/'' @ T) = Inr tip \<and>
      commit_parents cherry = first_parent # rest \<and>
      merge_trees g (commit_tree first_parent)
        \<lparr>branch_name = ''refs/heads/'' @ backport_pr_branch n sha T,
         branch_target = commit_oid tip\<rparr>
        cherry = Inr index \<and>
      write_tree g index = Inr tree_id \<and>
      remote_push g [''HEAD:refs/heads/'' @ backport_pr_branch n sha T] tok = Inr () \<and>
      fst (backport_pr_sync g n sha T slug remote tok) =
        TemporaryDirectory (tmp_prefix slug T) (tmp_suffix n)
        # cherry_pick_calls n sha T remote tok tmp cherry tip first_parent index tree_id
        @ [Cleanup tmp])"
proof -
  from assms obtain tmp u where
    tmp: "mkdtemp g (tmp_prefix slug T) (tmp_suffix n) = Inr tmp"
    and body: "snd (backport_in_tmp_dir g n sha T remote tok tmp) = Inr u"
    and b: "b = backport_pr_branch n sha T"
    unfolding backport_pr_sync_def Let_def tmp_prefix_def tmp_suffix_def
    by (auto simp add: snd_then_run_Inr snd_call snd_finally_run snd_done_run)
  have trace: "fst (backport_pr_sync g n sha T slug remote tok) =
      TemporaryDirectory (tmp_prefix slug T) (tmp_suffix n)
      # fst (backport_in_tmp_dir g n sha T remote tok tmp) @ [Cleanup tmp]"
    using tmp body
    unfolding backport_pr_sync_def Let_def tmp_prefix_def tmp_suffix_def
    by (simp add: run_simps)
  from backport_in_tmp_dir_success [OF body] trace b show ?thesis
    by (metis (no_types, lifting))
qed

lemma demo_backport_v1_2:
  "backport_pr_sync (demo_git push_ok) 42 ''3f2c9a1b77'' ''v1.2'' ''o/r''
     ''https://github.com/o/r.git'' ''token'' =
   (TemporaryDirectory ''o--r---v1.2---'' ''---PR-42.git''
    # cherry_pick_calls 42 ''3f2c9a1b77'' ''v1.2'' ''https://github.com/o/r.git'' ''token''
        ''/tmp/o--r---v1.2---x---PR-42.git'' demo_cherry demo_tip demo_parent 0 ''tree-merged''
    @ [Cleanup ''/tmp/o--r---v1.2---x---PR-42.git''],
    Inr ''patchback/backports/v1.2/3f2c9a1b77/pr42'')"
  by (simp add: backport_pr_sync_def backport_in_tmp_dir_def cherry_pick_calls_def
      backport_pr_branch_def Let_def demo_git_def push_ok_def demo_cherry_def
      replace_char_def str_int_def str_nat.simps digit_char_def
      then_run_def try_except_def finally_run_def call_def done_run_def raise_run_def
      getitem_0_def)

section \<open>Which calls a run makes\<close>

lemma in_fst_then_run:
  "ev \<in> set (fst (then_run m k)) \<longleftrightarrow>
     ev \<in> set (fst m) \<or> (\<exists>x. snd m = Inr x \<and> ev \<in> set (fst (k x)))"
  by (auto simp add: fst_then_run split: sum.splits)

lemma in_fst_try_except:
  "ev \<in> set (fst (try_except m h k)) \<longleftrightarrow>
     ev \<in> set (fst m) \<or> (\<exists>e. snd m = Inl e \<and> ev \<in> set (fst (h e)))
     \<or> (\<exists>x. snd m = Inr x \<and> ev \<in> set (fst (k x)))"
  by (auto simp add: fst_try_except split: sum.splits)

lemmas in_run_simps =
  in_fst_then_run in_fst_try_except fst_call snd_call fst_raise_run fst_done_run
  fst_getitem_0 snd_getitem_0_Inr fst_finally_run snd_finally_run

lemma backport_in_tmp_dir_git_calls:
  "ev \<in> set (fst (backport_in_tmp_dir g n sha T remote tok tmp)) \<Longrightarrow> is_git_call ev"
  unfolding backport_in_tmp_dir_def Let_def
  by (auto simp add: in_run_simps split: if_splits)

lemma backport_pr_sync_git_calls:
  "ev \<in> set (fst (backport_pr_sync g n sha T slug remote tok)) \<Longrightarrow> is_git_call ev"
  unfolding backport_pr_sync_def Let_def
  by (auto simp add: in_run_simps dest: backport_in_tmp_dir_git_calls)


lemma push_reached_body:
  assumes "Push refspecs t \<in> set (fst (backport_in_tmp_dir g n sha T remote tok tmp))"
    and "remote_push g refspecs t = Inl err"
  shows "snd (backport_in_tmp_dir g n sha T remote tok tmp) =
           Inl (if is_GitError err \<and> str_exn err = ''unexpected http status code: 403''
                then PermissionError (push_denied_message remote) else err)
         \<and> refspecs = [''HEAD:refs/heads/'' @ backport_pr_branch n sha T] \<and> t = tok"
proof -
  from assms(1) obtain cherry tip first_parent rest index tree_id mb new_oid where
    f: "clone_repository g remote tmp tok = Inr ()"
       "remotes_add_fetch g ''origin''
          (''+refs/pull/'' @ str_int n @ ''/merge:refs/merge/origin/'' @ str_int n) = Inr ()"
       "remotes_add_fetch g ''origin''
          (''+refs/pull/'' @ str_int n @ ''/head:refs/pull/origin/'' @ str_int n) = Inr ()"
       "remote_fetch g tok = Inr ()"
       "remotes_add_push g ''origin'' (T @ '':'' @ backport_pr_branch n sha T) = Inr ()"
       "revparse_single g sha = Inr cherry"
       "branches_getitem g (''origin/'' @ T) = Inr tip"
       "branches_local_create g (backport_pr_branch n sha T) tip = Inr ()"
       "merge_base g (commit_oid cherry) (commit_oid tip) = Inr mb"
       "commit_parents cherry = first_parent # rest"
       "merge_trees g (commit_tree first_parent)
          \<lparr>branch_name = ''refs/heads/'' @ backport_pr_branch n sha T,
           branch_target = commit_oid tip\<rparr>
          cherry = Inr index"
       "write_tree g index = Inr tree_id"
       "create_commit g (''refs/heads/'' @ backport_pr_branch n sha T) (commit_author cherry)
           bot_signature (commit_message cherry) tree_id [commit_oid tip] = Inr new_oid"
       "refspecs = [''HEAD:refs/heads/'' @ backport_pr_branch n sha T]" "t = tok"
    unfolding backport_in_tmp_dir_def Let_def
    by (auto simp add: in_run_simps split: if_splits)
  show ?thesis
    using f assms(2)
    unfolding backport_in_tmp_dir_def Let_def
    by (simp add: run_simps)
qed

lemma fst_backport_pr_sync:
  "fst (backport_pr_sync g n sha T slug remote tok) =
     TemporaryDirectory (tmp_prefix slug T) (tmp_suffix n)
     # (case mkdtemp g (tmp_prefix slug T) (tmp_suffix n) of
          Inl e \<Rightarrow> []
        | Inr tmp \<Rightarrow> fst (backport_in_tmp_dir g n sha T remote tok tmp) @ [Cleanup tmp])"
  unfolding backport_pr_sync_def Let_def tmp_prefix_def tmp_suffix_def
  by (simp add: run_simps split: sum.splits)

lemma snd_backport_pr_sync_Inl:
  assumes "mkdtemp g (tmp_prefix slug T) (tmp_suffix n) = Inr tmp"
    and "snd (backport_in_tmp_dir g n sha T remote tok tmp) = Inl e"
  shows "snd (backport_pr_sync g n sha T slug remote tok) = Inl e"
  using assms
  unfolding backport_pr_sync_def Let_def tmp_prefix_def tmp_suffix_def
  by (simp add: run_simps)


lemma push_reached:
  assumes "Push refspecs t \<in> set (fst (backport_pr_sync g n sha T slug remote tok))"
    and "remote_push g refspecs t = Inl err"
  shows "snd (backport_pr_sync g n sha T slug remote tok) =
           Inl (if is_GitError err \<and> str_exn err = ''unexpected http status code: 403''
                then PermissionError (push_denied_message remote) else err)
         \<and> refspecs = [''HEAD:refs/heads/'' @ backport_pr_branch n sha T] \<and> t = tok"
proof -
  from assms(1) obtain tmp where
    tmp: "mkdtemp g (tmp_prefix slug T) (tmp_suffix n) = Inr tmp"
    and body: "Push refspecs t \<in> set (fst (backport_in_tmp_dir g n sha T remote tok tmp))"
    by (cases "mkdtemp g (tmp_prefix slug T) (tmp_suffix n)")
       (auto simp add: fst_backport_pr_sync)
  from push_reached_body [OF body assms(2)] snd_backport_pr_sync_Inl [OF tmp]
  show ?thesis by simp
qed



text \<open>
  Lines 75-78: the executor's own \<^verbatim>\<open>LookupError\<close> comes from a \<^verbatim>\<open>KeyError\<close> of the clone.
\<close>

lemma clone_key_error:
  assumes "mkdtemp g (tmp_prefix slug T) (tmp_suffix n) = Inr tmp"
    and "clone_repository g remote tmp tok = Inl (KeyError txt)"
  shows "backport_pr_sync g n sha T slug remote tok
         = ([TemporaryDirectory (tmp_prefix slug T) (tmp_suffix n),
             CloneRepository remote tmp True tok, Cleanup tmp],
            Inl (LookupError (''Failed to check out branch '' @ T)))"
  using assms
  unfolding backport_pr_sync_def backport_in_tmp_dir_def Let_def tmp_prefix_def tmp_suffix_def
  by (intro prod_eqI) (simp_all add: run_simps)

section \<open>The orchestrator, path by path\<close>

lemma patch_if_enabled_None: "patch_if_enabled rt None data = done_run ()"
  by (simp add: patch_if_enabled_def)

lemma patch_if_enabled_Some:
  "patch_if_enabled rt (Some uri) data =
     call (ApiPatch uri (Some ''antiope'') data) (patch_check_run rt uri data)"
  by (simp add: patch_if_enabled_def)

lemma git_call_not_api:
  "is_git_call ev \<Longrightarrow>
     \<not> is_terminal ev \<and> \<not> is_success ev \<and> \<not> is_neutral ev \<and> \<not> is_status_call ev
     \<and> \<not> is_pull_request_post ev"
  by (cases ev) simp_all

lemma backport_pr_sync_no_success:
  "filter is_success (fst (backport_pr_sync g n sha T slug remote tok)) = []"
  using backport_pr_sync_git_calls git_call_not_api by (auto simp add: filter_empty_conv)

lemma backport_pr_sync_no_terminal:
  "filter is_terminal (fst (backport_pr_sync g n sha T slug remote tok)) = []"
  using backport_pr_sync_git_calls git_call_not_api by (auto simp add: filter_empty_conv)

lemma backport_pr_sync_no_status_call:
  "filter is_status_call (fst (backport_pr_sync g n sha T slug remote tok)) = []"
  using backport_pr_sync_git_calls git_call_not_api by (auto simp add: filter_empty_conv)


text \<open>With reporting switched off, the run is the token, the executor and the pull request.\<close>

lemma run_backport_disabled:
  "run_backport rt n ttl bdy base sha T url slug giturl None =
     (GetToken #
       (case get_token rt of
          Inl e \<Rightarrow> []
        | Inr tok \<Rightarrow>
            fst (backport_pr_sync (git rt) n sha T slug giturl tok)
            @ (case snd (backport_pr_sync (git rt) n sha T slug giturl tok) of
                 Inl e \<Rightarrow> []
               | Inr b \<Rightarrow> [ApiPost url None (pull_request_data n ttl bdy base sha T b)])),
      (case get_token rt of
         Inl e \<Rightarrow> if is_LookupError e \<or> is_PermissionError e then Inr () else Inl e
       | Inr tok \<Rightarrow>
           (case snd (backport_pr_sync (git rt) n sha T slug giturl tok) of
              Inl e \<Rightarrow> if is_LookupError e \<or> is_PermissionError e then Inr () else Inl e
            | Inr b \<Rightarrow>
                (case post_pull rt url (pull_request_data n ttl bdy base sha T b) of
                   Inl e \<Rightarrow> if is_ValidationError e \<or> (is_BadRequest e \<and> \<not> reraised e)
                            then Inr () else Inl e
                 | Inr html_url \<Rightarrow> Inr ()))))"
  unfolding run_backport_def create_backport_pr_def Let_def
  by (rule prod_eqI) (simp_all add: run_simps patch_if_enabled_None split: sum.splits)

text \<open>A git call in a run of the orchestrator is a call of the executor it started.\<close>

lemma git_call_in_run_backport:
  assumes "ev \<in> set (fst (run_backport rt n ttl bdy base sha T url slug giturl chk))"
    and "is_git_call ev"
  shows "\<exists>tok. get_token rt = Inr tok
      \<and> ev \<in> set (fst (backport_pr_sync (git rt) n sha T slug giturl tok))
      \<and> (\<forall>uri. chk = Some uri \<longrightarrow>
             patch_check_run rt uri (check_in_progress (check_run_name T)) = Inr ())"
  using assms git_call_not_api [OF assms(2)]
  unfolding run_backport_def create_backport_pr_def Let_def
  by (cases chk)
     (auto simp add: in_run_simps patch_if_enabled_None patch_if_enabled_Some
        split: if_splits)

lemma git_call_in_process:
  assumes "ev \<in> set (fst (process_pr_backport_labels rt n ttl bdy base head sha T url slug
                              giturl))"
    and "is_git_call ev"
  shows "\<exists>tok. get_token rt = Inr tok
      \<and> ev \<in> set (fst (backport_pr_sync (git rt) n sha T slug giturl tok))
      \<and> (\<forall>check_run_id.
             post_check_run rt (check_runs_base_uri slug) (check_run_queued rt T head)
               = Inr check_run_id \<longrightarrow>
             patch_check_run rt (check_runs_base_uri slug @ ''/'' @ str_int check_run_id)
               (check_in_progress (check_run_name T)) = Inr ())
      \<and> (\<forall>err.
             post_check_run rt (check_runs_base_uri slug) (check_run_queued rt T head)
               = Inl err \<longrightarrow> is_BadRequest err \<and> \<not> reraised err)"
  using assms git_call_in_run_backport [of ev rt n ttl bdy base sha T url slug giturl]
  unfolding process_pr_backport_labels_def
  by (auto simp add: in_run_simps split: if_splits sum.splits)

text \<open>The pull request is requested only after the executor returned, and with its branch.\<close>

lemma pull_request_post_in_run_backport:
  assumes "ev \<in> set (fst (run_backport rt n ttl bdy base sha T url slug giturl chk))"
    and "is_pull_request_post ev"
  shows "\<exists>tok b. get_token rt = Inr tok
      \<and> snd (backport_pr_sync (git rt) n sha T slug giturl tok) = Inr b
      \<and> ev = ApiPost url None (pull_request_data n ttl bdy base sha T b)"
  using assms backport_pr_sync_git_calls [of ev "git rt" n sha T slug giturl]
    git_call_not_api [of ev]
  unfolding run_backport_def create_backport_pr_def Let_def
  by (cases chk)
     (auto simp add: in_run_simps snd_then_run_Inr patch_if_enabled_None
        patch_if_enabled_Some split: if_splits)

lemma pull_request_post_in_process:
  assumes "ev \<in> set (fst (process_pr_backport_labels rt n ttl bdy base head sha T url slug
                              giturl))"
    and "is_pull_request_post ev"
  shows "\<exists>tok b. get_token rt = Inr tok
      \<and> snd (backport_pr_sync (git rt) n sha T slug giturl tok) = Inr b
      \<and> ev = ApiPost url None (pull_request_data n ttl bdy base sha T b)"
  using assms pull_request_post_in_run_backport [of ev rt n ttl bdy base sha T url slug giturl]
  unfolding process_pr_backport_labels_def
  by (auto simp add: in_run_simps split: if_splits sum.splits)

section \<open>Runs in the example world\<close>

lemmas eval_defs =
  process_pr_backport_labels_def run_backport_def create_backport_pr_def
  patch_if_enabled_def backport_pr_sync_def backport_in_tmp_dir_def backport_pr_branch_def
  check_runs_base_uri_def check_run_name_def check_run_queued_def check_in_progress_def
  check_cherry_picked_def check_completed_def pull_request_data_def format_optional_def
  reraised_def FORBIDDEN_def push_denied_message_def bot_signature_def
  replace_char_def str_int_def str_nat.simps digit_char_def getitem_0_def
  then_run_def try_except_def finally_run_def call_def done_run_def raise_run_def Let_def
  demo_runtime_def demo_git_def demo_cherry_def demo_tip_def demo_parent_def
  demo_author_def push_ok_def push_forbidden_def push_broken_for_v1_2_def


lemma demo_targets:
  "target_branches (demo_pull_request [''bug'', ''backport-v9.9'', ''backport-v1.3''])
     = [''v9.9'', ''v1.3'']"
  "target_branches (demo_pull_request [''backport-v1.2'', ''backport-v1.3''])
     = [''v1.2'', ''v1.3'']"
  by (simp_all add: target_branches_def startswith_def BACKPORT_LABEL_LEN_def
        BACKPORT_LABEL_PREFIX_def demo_pull_request_def)

lemma demo_fan_out_v9_9:
  "snd (backport_to (demo_runtime (demo_git push_ok) (Inr 7)) 42
          (demo_pull_request [''bug'', ''backport-v9.9'', ''backport-v1.3''])
          demo_repository ''v9.9'') = Inr ()"
  "filter is_pull_request_post
     (fst (backport_to (demo_runtime (demo_git push_ok) (Inr 7)) 42
          (demo_pull_request [''bug'', ''backport-v9.9'', ''backport-v1.3''])
          demo_repository ''v9.9'')) = []"
  by (simp_all add: demo_pull_request_def demo_repository_def backport_to_def eval_defs)

lemma demo_fan_out_v1_3:
  "snd (backport_to (demo_runtime (demo_git push_ok) (Inr 7)) 42
          (demo_pull_request [''bug'', ''backport-v9.9'', ''backport-v1.3''])
          demo_repository ''v1.3'') = Inr ()"
  "filter is_pull_request_post
     (fst (backport_to (demo_runtime (demo_git push_ok) (Inr 7)) 42
          (demo_pull_request [''bug'', ''backport-v9.9'', ''backport-v1.3''])
          demo_repository ''v1.3''))
   = [ApiPost ''https://api.github.com/repos/o/r/pulls'' None
        (pull_request_data 42 ''Fix overflow'' (Some ''Details.'') ''main'' ''3f2c9a1b77''
           ''v1.3'' ''patchback/backports/v1.3/3f2c9a1b77/pr42'')]"
  by (simp_all add: demo_pull_request_def demo_repository_def backport_to_def eval_defs)

lemma demo_broken_v1_2:
  "snd (backport_to (demo_runtime (demo_git push_broken_for_v1_2) (Inr 7)) 5
          (demo_pull_request [''backport-v1.2'', ''backport-v1.3'']) demo_repository
          ''v1.2'') = Inl (GitError ''connection reset'')"
  "filter is_pull_request_post
     (fst (backport_to (demo_runtime (demo_git push_broken_for_v1_2) (Inr 7)) 5
          (demo_pull_request [''backport-v1.2'', ''backport-v1.3'']) demo_repository
          ''v1.2'')) = []"
  "BranchesGetitem ''origin/v1.3''
     \<notin> set (fst (backport_to (demo_runtime (demo_git push_broken_for_v1_2) (Inr 7)) 5
          (demo_pull_request [''backport-v1.2'', ''backport-v1.3'']) demo_repository
          ''v1.2''))"
  by (simp_all add: demo_pull_request_def demo_repository_def backport_to_def eval_defs)

lemma demo_broken_v1_3:
  "snd (backport_to (demo_runtime (demo_git push_broken_for_v1_2) (Inr 7)) 5
          (demo_pull_request [''backport-v1.2'', ''backport-v1.3'']) demo_repository
          ''v1.3'') = Inr ()"
  by (simp add: demo_pull_request_def demo_repository_def backport_to_def eval_defs)

section \<open>Terminal status calls\<close>

lemma status_of_requests:
  "is_terminal (ApiPatch uri preview (check_completed name conclusion at t x s))"
  "\<not> is_terminal (ApiPatch uri preview (check_in_progress name))"
  "\<not> is_terminal (ApiPatch uri preview (check_cherry_picked name b))"
  "is_success (ApiPatch uri preview (check_completed name conclusion at t x s))
     = (conclusion = ''success'')"
  "is_neutral (ApiPatch uri preview (check_completed name conclusion at t x s))
     = (conclusion = ''neutral'')"
  "\<not> is_success (ApiPatch uri preview (check_in_progress name))"
  "\<not> is_success (ApiPatch uri preview (check_cherry_picked name b))"
  by (simp_all add: check_completed_def check_in_progress_def check_cherry_picked_def)

lemmas status_simps = is_terminal.simps(1) is_success.simps(1) is_neutral.simps(1)

lemma terminal_create_backport_pr:
  "length (filter is_terminal
     (fst (create_backport_pr rt n ttl bdy base sha T url (Some uri) b))) \<le> 1"
  "snd (create_backport_pr rt n ttl bdy base sha T url (Some uri) b) = Inr () \<Longrightarrow>
     length (filter is_terminal
       (fst (create_backport_pr rt n ttl bdy base sha T url (Some uri) b))) = 1"
  "filter is_success (fst (create_backport_pr rt n ttl bdy base sha T url (Some uri) b)) \<noteq> []
     \<Longrightarrow> \<exists>html_url. post_pull rt url (pull_request_data n ttl bdy base sha T b) = Inr html_url"
  "\<forall>ev \<in> set (fst (create_backport_pr rt n ttl bdy base sha T url (Some uri) b)).
     is_terminal ev \<longrightarrow> is_neutral ev \<or> is_success ev"
  unfolding create_backport_pr_def Let_def
  by (auto simp add: run_simps patch_if_enabled_Some status_of_requests
        simp del: status_simps split: sum.splits if_splits)

lemma terminal_run_backport:
  "length (filter is_terminal
     (fst (run_backport rt n ttl bdy base sha T url slug giturl (Some uri)))) \<le> 1"
  "snd (run_backport rt n ttl bdy base sha T url slug giturl (Some uri)) = Inr () \<Longrightarrow>
     length (filter is_terminal
       (fst (run_backport rt n ttl bdy base sha T url slug giturl (Some uri)))) = 1"
  "filter is_success (fst (run_backport rt n ttl bdy base sha T url slug giturl (Some uri)))
     \<noteq> []
     \<Longrightarrow> \<exists>tok b html_url. get_token rt = Inr tok
           \<and> snd (backport_pr_sync (git rt) n sha T slug giturl tok) = Inr b
           \<and> post_pull rt url (pull_request_data n ttl bdy base sha T b) = Inr html_url"
  "\<forall>ev \<in> set (fst (run_backport rt n ttl bdy base sha T url slug giturl (Some uri))).
     is_terminal ev \<longrightarrow> is_neutral ev \<or> is_success ev"
proof -
  have quiet: "\<And>tok ev. ev \<in> set (fst (backport_pr_sync (git rt) n sha T slug giturl tok))
      \<Longrightarrow> \<not> is_terminal ev"
    using backport_pr_sync_git_calls git_call_not_api by blast
  note [simp] = run_simps patch_if_enabled_Some status_of_requests
    backport_pr_sync_no_terminal backport_pr_sync_no_success
  show "length (filter is_terminal
     (fst (run_backport rt n ttl bdy base sha T url slug giturl (Some uri)))) \<le> 1"
    unfolding run_backport_def Let_def
    using terminal_create_backport_pr(1) [of rt n ttl bdy base sha T url uri]
    by (auto simp del: status_simps split: sum.splits if_splits)
  show "length (filter is_terminal
       (fst (run_backport rt n ttl bdy base sha T url slug giturl (Some uri)))) = 1"
    if "snd (run_backport rt n ttl bdy base sha T url slug giturl (Some uri)) = Inr ()"
    using that terminal_create_backport_pr(2) [of rt n ttl bdy base sha T url uri]
    unfolding run_backport_def Let_def
    by (auto simp del: status_simps split: sum.splits if_splits)
  show "\<exists>tok b html_url. get_token rt = Inr tok
           \<and> snd (backport_pr_sync (git rt) n sha T slug giturl tok) = Inr b
           \<and> post_pull rt url (pull_request_data n ttl bdy base sha T b) = Inr html_url"
    if "filter is_success (fst (run_backport rt n ttl bdy base sha T url slug giturl (Some uri)))
     \<noteq> []"
    using that terminal_create_backport_pr(3) [of rt n ttl bdy base sha T url uri]
    unfolding run_backport_def Let_def
    by (auto simp del: status_simps split: sum.splits if_splits)
  show "\<forall>ev \<in> set (fst (run_backport rt n ttl bdy base sha T url slug giturl (Some uri))).
     is_terminal ev \<longrightarrow> is_neutral ev \<or> is_success ev"
    using terminal_create_backport_pr(4) [of rt n ttl bdy base sha T url uri] quiet
    unfolding run_backport_def Let_def
    by (auto simp del: status_simps split: sum.splits if_splits)
qed

section \<open>The loop over the target branches\<close>

lemma process_target_branches_run:
  "process_target_branches rt number pr repo Ts =
     (concat (map (\<lambda>T. fst (backport_to rt number pr repo T))
          (takeWhile (\<lambda>T. snd (backport_to rt number pr repo T) = Inr ()) Ts
           @ take 1 (dropWhile (\<lambda>T. snd (backport_to rt number pr repo T) = Inr ()) Ts))),
      (case dropWhile (\<lambda>T. snd (backport_to rt number pr repo T) = Inr ()) Ts of
         [] \<Rightarrow> Inr ()
       | T # rest \<Rightarrow> snd (backport_to rt number pr repo T)))"
proof (induction Ts)
  case Nil
  show ?case by (simp add: done_run_def)
next
  case (Cons T Ts)
  show ?case
  proof (cases "snd (backport_to rt number pr repo T)")
    case (Inl e)
    then show ?thesis
      by (intro prod_eqI) (simp_all add: run_simps)
  next
    case (Inr u)
    then show ?thesis
      using Cons.IH by (intro prod_eqI) (simp_all add: run_simps)
  qed
qed

section \<open>Claims\<close>

text \<open>
  Claim C2, as the code has it: the branch the executor creates, maps the push to and
  pushes to is named \<^verbatim>\<open>patchback/backports/<target_branch>/<merge_commit_sha>/pr<pr_number>\<close>,
  and that name is the value a successful run returns. The name has the prefix
  \<^verbatim>\<open>patchback/\<close>, which the claim leaves out.
\<close>

theorem backport_branch_created_and_pushed:
  assumes "snd (backport_pr_sync g pr_number merge_commit_sha target_branch repo_slug
                  repo_remote token) = Inr b"
  shows "b = ''patchback/backports/'' @ target_branch @ ''/'' @ merge_commit_sha @ ''/pr''
             @ str_int pr_number
    \<and> (\<exists>tip. BranchesLocalCreate b tip
               \<in> set (fst (backport_pr_sync g pr_number merge_commit_sha target_branch
                              repo_slug repo_remote token)))
    \<and> AddPush ''origin'' (target_branch @ '':'' @ b)
        \<in> set (fst (backport_pr_sync g pr_number merge_commit_sha target_branch repo_slug
                       repo_remote token))
    \<and> Push [''HEAD:refs/heads/'' @ b] token
        \<in> set (fst (backport_pr_sync g pr_number merge_commit_sha target_branch repo_slug
                       repo_remote token))"
proof -
  from backport_pr_sync_success [OF assms] obtain tmp cherry tip first_parent index tree_id
    where b: "b = backport_pr_branch pr_number merge_commit_sha target_branch"
      and trace: "fst (backport_pr_sync g pr_number merge_commit_sha target_branch repo_slug
                         repo_remote token) =
        TemporaryDirectory (tmp_prefix repo_slug target_branch) (tmp_suffix pr_number)
        # cherry_pick_calls pr_number merge_commit_sha target_branch repo_remote token tmp
            cherry tip first_parent index tree_id
        @ [Cleanup tmp]"
    by blast
  have "BranchesLocalCreate b tip
          \<in> set (fst (backport_pr_sync g pr_number merge_commit_sha target_branch repo_slug
                         repo_remote token))"
    unfolding trace b by (simp add: cherry_pick_calls_def)
  moreover have "AddPush ''origin'' (target_branch @ '':'' @ b)
          \<in> set (fst (backport_pr_sync g pr_number merge_commit_sha target_branch repo_slug
                         repo_remote token))"
    unfolding trace b by (simp add: cherry_pick_calls_def)
  moreover have "Push [''HEAD:refs/heads/'' @ b] token
          \<in> set (fst (backport_pr_sync g pr_number merge_commit_sha target_branch repo_slug
                         repo_remote token))"
    unfolding trace b by (simp add: cherry_pick_calls_def)
  ultimately show ?thesis
    using b by (auto simp add: backport_pr_branch_def)
qed

theorem backport_branch_created_and_pushed_witness:
  "snd (backport_pr_sync (demo_git push_ok) 42 ''3f2c9a1b77'' ''v1.2'' ''o/r''
          ''https://github.com/o/r.git'' ''token'')
     = Inr ''patchback/backports/v1.2/3f2c9a1b77/pr42''
   \<and> Push [''HEAD:refs/heads/patchback/backports/v1.2/3f2c9a1b77/pr42''] ''token''
       \<in> set (fst (backport_pr_sync (demo_git push_ok) 42 ''3f2c9a1b77'' ''v1.2'' ''o/r''
                      ''https://github.com/o/r.git'' ''token''))"
proof -
  have run: "snd (backport_pr_sync (demo_git push_ok) 42 ''3f2c9a1b77'' ''v1.2'' ''o/r''
                    ''https://github.com/o/r.git'' ''token'')
               = Inr ''patchback/backports/v1.2/3f2c9a1b77/pr42''"
    by (simp add: demo_backport_v1_2)
  from backport_branch_created_and_pushed [OF run] run show ?thesis
    by (simp add: str_int_def str_nat.simps digit_char_def)
qed

text \<open>
  Claim C2 as the specification words it fails: for pull request 42 and the label
  \<^verbatim>\<open>backport-v1.2\<close> the run returns the prefixed name, and nothing is pushed to
  \<^verbatim>\<open>backports/v1.2/3f2c9a1b77/pr42\<close>.
\<close>

theorem unprefixed_branch_name_counterexample:
  "snd (backport_pr_sync (demo_git push_ok) 42 ''3f2c9a1b77'' ''v1.2'' ''o/r''
          ''https://github.com/o/r.git'' ''token'')
     \<noteq> Inr ''backports/v1.2/3f2c9a1b77/pr42''
   \<and> Push [''HEAD:refs/heads/backports/v1.2/3f2c9a1b77/pr42''] ''token''
       \<notin> set (fst (backport_pr_sync (demo_git push_ok) 42 ''3f2c9a1b77'' ''v1.2'' ''o/r''
                      ''https://github.com/o/r.git'' ''token''))"
  by (simp add: demo_backport_v1_2 cherry_pick_calls_def backport_pr_branch_def)




text \<open>
  Claim C3: in every run of the executor that returns, the one three-way merge takes the
  tree of the first parent of the cherry as its base (the merge base computed on line 111
  is not an argument of it), and the one commit created has the author and the message of
  the cherry, the committer \<open>Patchback <patchback@sanitizers.bot>\<close>, the tree written from
  the merged index, and one parent: the commit the remote-tracking branch of the target
  branch points at, which is where the backport branch was created.
\<close>

theorem cherry_pick_uses_first_parent_tree:
  assumes "snd (backport_pr_sync g pr_number merge_commit_sha target_branch repo_slug
                  repo_remote token) = Inr b"
  shows "\<exists>cherry tip first_parent rest index tree_id.
      revparse_single g merge_commit_sha = Inr cherry
    \<and> branches_getitem g (''origin/'' @ target_branch) = Inr tip
    \<and> commit_parents cherry = first_parent # rest
    \<and> merge_trees g (commit_tree first_parent)
         \<lparr>branch_name = ''refs/heads/'' @ b, branch_target = commit_oid tip\<rparr> cherry
       = Inr index
    \<and> write_tree g index = Inr tree_id
    \<and> filter is_merge_trees
         (fst (backport_pr_sync g pr_number merge_commit_sha target_branch repo_slug
                 repo_remote token))
       = [MergeTrees (commit_tree first_parent)
            \<lparr>branch_name = ''refs/heads/'' @ b, branch_target = commit_oid tip\<rparr> cherry]
    \<and> filter is_create_commit
         (fst (backport_pr_sync g pr_number merge_commit_sha target_branch repo_slug
                 repo_remote token))
       = [CreateCommit (''refs/heads/'' @ b) (commit_author cherry)
            \<lparr>sig_name = ''Patchback'', sig_email = ''patchback@sanitizers.bot''\<rparr>
            (commit_message cherry) tree_id [commit_oid tip]]
    \<and> BranchesLocalCreate b tip
         \<in> set (fst (backport_pr_sync g pr_number merge_commit_sha target_branch repo_slug
                        repo_remote token))"
proof -
  from backport_pr_sync_success [OF assms] obtain tmp cherry tip first_parent rest index tree_id
    where b: "b = backport_pr_branch pr_number merge_commit_sha target_branch"
      and f: "revparse_single g merge_commit_sha = Inr cherry"
        "branches_getitem g (''origin/'' @ target_branch) = Inr tip"
        "commit_parents cherry = first_parent # rest"
        "merge_trees g (commit_tree first_parent)
           \<lparr>branch_name = ''refs/heads/''
                @ backport_pr_branch pr_number merge_commit_sha target_branch,
            branch_target = commit_oid tip\<rparr> cherry = Inr index"
        "write_tree g index = Inr tree_id"
      and trace: "fst (backport_pr_sync g pr_number merge_commit_sha target_branch repo_slug
                         repo_remote token) =
        TemporaryDirectory (tmp_prefix repo_slug target_branch) (tmp_suffix pr_number)
        # cherry_pick_calls pr_number merge_commit_sha target_branch repo_remote token tmp
            cherry tip first_parent index tree_id
        @ [Cleanup tmp]"
    by blast
  have "filter is_merge_trees
         (fst (backport_pr_sync g pr_number merge_commit_sha target_branch repo_slug
                 repo_remote token))
       = [MergeTrees (commit_tree first_parent)
            \<lparr>branch_name = ''refs/heads/'' @ b, branch_target = commit_oid tip\<rparr> cherry]"
    unfolding trace b by (simp add: cherry_pick_calls_def)
  moreover have "filter is_create_commit
         (fst (backport_pr_sync g pr_number merge_commit_sha target_branch repo_slug
                 repo_remote token))
       = [CreateCommit (''refs/heads/'' @ b) (commit_author cherry)
            \<lparr>sig_name = ''Patchback'', sig_email = ''patchback@sanitizers.bot''\<rparr>
            (commit_message cherry) tree_id [commit_oid tip]]"
    unfolding trace b by (simp add: cherry_pick_calls_def bot_signature_def)
  moreover have "BranchesLocalCreate b tip
         \<in> set (fst (backport_pr_sync g pr_number merge_commit_sha target_branch repo_slug
                        repo_remote token))"
    unfolding trace b by (simp add: cherry_pick_calls_def)
  ultimately show ?thesis
    using f b by blast
qed

theorem cherry_pick_uses_first_parent_tree_witness:
  "filter is_merge_trees
     (fst (backport_pr_sync (demo_git push_ok) 42 ''3f2c9a1b77'' ''v1.2'' ''o/r''
             ''https://github.com/o/r.git'' ''token''))
   = [MergeTrees ''tree-parent''
        \<lparr>branch_name = ''refs/heads/patchback/backports/v1.2/3f2c9a1b77/pr42'',
         branch_target = ''2222''\<rparr> demo_cherry]
   \<and> filter is_create_commit
     (fst (backport_pr_sync (demo_git push_ok) 42 ''3f2c9a1b77'' ''v1.2'' ''o/r''
             ''https://github.com/o/r.git'' ''token''))
   = [CreateCommit ''refs/heads/patchback/backports/v1.2/3f2c9a1b77/pr42'' demo_author
        \<lparr>sig_name = ''Patchback'', sig_email = ''patchback@sanitizers.bot''\<rparr>
        ''Fix overflow'' ''tree-merged'' [''2222'']]"
proof -
  have run: "snd (backport_pr_sync (demo_git push_ok) 42 ''3f2c9a1b77'' ''v1.2'' ''o/r''
                    ''https://github.com/o/r.git'' ''token'')
               = Inr ''patchback/backports/v1.2/3f2c9a1b77/pr42''"
    by (simp add: demo_backport_v1_2)
  from cherry_pick_uses_first_parent_tree [OF run] show ?thesis
    by (auto simp add: demo_git_def demo_cherry_def demo_tip_def demo_parent_def)
qed

text \<open>
  Claim C10: when the request that creates the check run fails with anything but a
  \<^verbatim>\<open>BadRequest\<close> of status 403 with the text \<^verbatim>\<open>Resource not accessible by integration\<close>,
  that request is the only call of the run and its exception leaves the orchestrator:
  no token, no git call, no pull request.
\<close>

theorem check_run_creation_failure_propagates:
  assumes "post_check_run rt (check_runs_base_uri repo_slug)
             (check_run_queued rt target_branch pr_head_ref) = Inl err"
    and "\<not> (is_BadRequest err \<and> status_code err = Some 403
             \<and> str_exn err = ''Resource not accessible by integration'')"
  shows "process_pr_backport_labels rt pr_number pr_title pr_body pr_base_ref pr_head_ref
           pr_merge_commit target_branch pr_api_url repo_slug git_url
         = ([ApiPost (''/repos/'' @ repo_slug @ ''/check-runs'') (Some ''antiope'')
               (JObj [(''name'', JStr (''Backport to '' @ target_branch)),
                      (''head_sha'', JStr pr_head_ref),
                      (''status'', JStr ''queued''),
                      (''started_at'', JStr (utcnow_isoformat rt 0 @ ''Z''))])],
            Inl err)"
  using assms
  unfolding process_pr_backport_labels_def
  by (rule_tac prod_eqI)
     (auto simp add: run_simps reraised_def FORBIDDEN_def check_runs_base_uri_def
        check_run_queued_def check_run_name_def)

theorem check_run_creation_failure_propagates_witness:
  "process_pr_backport_labels
     (demo_runtime (demo_git push_ok) (Inl (BadRequest 500 ''Server Error'')))
     42 ''Fix overflow'' (Some ''Details.'') ''main'' ''fix-overflow'' ''3f2c9a1b77'' ''v1.2''
     ''https://api.github.com/repos/o/r/pulls'' ''o/r'' ''https://github.com/o/r.git''
   = ([ApiPost ''/repos/o/r/check-runs'' (Some ''antiope'')
         (JObj [(''name'', JStr ''Backport to v1.2''),
                (''head_sha'', JStr ''fix-overflow''),
                (''status'', JStr ''queued''),
                (''started_at'', JStr ''2020-01-01T00:00:00Z'')])],
      Inl (BadRequest 500 ''Server Error''))"
  using check_run_creation_failure_propagates
    [of "demo_runtime (demo_git push_ok) (Inl (BadRequest 500 ''Server Error''))" "''o/r''"
        "''v1.2''" "''fix-overflow''" "BadRequest 500 ''Server Error''" 42 "''Fix overflow''"
        "Some ''Details.''" "''main''" "''3f2c9a1b77''"
        "''https://api.github.com/repos/o/r/pulls''" "''https://github.com/o/r.git''"]
  by (simp add: demo_runtime_def)

text \<open>
  Claim C5: when the request that creates the check run is refused with the
  \<^verbatim>\<open>BadRequest\<close> of status 403 and text \<^verbatim>\<open>Resource not accessible by integration\<close>,
  the run goes on without reporting. It is exactly: that request, the token, the calls of
  the executor, and the request for the pull request when the executor returned a branch.
  No status call is made, and what the run ends in is decided by the token, the executor
  and the pull request alone: the classified failures end it normally, any other
  exception of theirs leaves the orchestrator, the refusal itself never does.
\<close>

theorem check_run_denied_disables_reporting:
  assumes "post_check_run rt (check_runs_base_uri repo_slug)
             (check_run_queued rt target_branch pr_head_ref) = Inl err"
    and "is_BadRequest err"
    and "status_code err = Some 403"
    and "str_exn err = ''Resource not accessible by integration''"
  shows "process_pr_backport_labels rt pr_number pr_title pr_body pr_base_ref pr_head_ref
           pr_merge_commit target_branch pr_api_url repo_slug git_url
         = (ApiPost (check_runs_base_uri repo_slug) (Some ''antiope'')
              (check_run_queued rt target_branch pr_head_ref)
            # GetToken
            # (case get_token rt of
                 Inl e \<Rightarrow> []
               | Inr token \<Rightarrow>
                   fst (backport_pr_sync (git rt) pr_number pr_merge_commit target_branch
                          repo_slug git_url token)
                   @ (case snd (backport_pr_sync (git rt) pr_number pr_merge_commit
                                  target_branch repo_slug git_url token) of
                        Inl e \<Rightarrow> []
                      | Inr b \<Rightarrow>
                          [ApiPost pr_api_url None
                             (pull_request_data pr_number pr_title pr_body pr_base_ref
                                pr_merge_commit target_branch b)])),
            (case get_token rt of
               Inl e \<Rightarrow> if is_LookupError e \<or> is_PermissionError e then Inr () else Inl e
             | Inr token \<Rightarrow>
                 (case snd (backport_pr_sync (git rt) pr_number pr_merge_commit
                              target_branch repo_slug git_url token) of
                    Inl e \<Rightarrow>
                      if is_LookupError e \<or> is_PermissionError e then Inr () else Inl e
                  | Inr b \<Rightarrow>
                      (case post_pull rt pr_api_url
                              (pull_request_data pr_number pr_title pr_body pr_base_ref
                                 pr_merge_commit target_branch b) of
                         Inl e \<Rightarrow>
                           if is_ValidationError e \<or> (is_BadRequest e \<and> \<not> reraised e)
                           then Inr () else Inl e
                       | Inr html_url \<Rightarrow> Inr ()))))
    \<and> filter is_status_call
         (fst (process_pr_backport_labels rt pr_number pr_title pr_body pr_base_ref
                 pr_head_ref pr_merge_commit target_branch pr_api_url repo_slug git_url))
       = []"
proof -
  have run: "process_pr_backport_labels rt pr_number pr_title pr_body pr_base_ref pr_head_ref
           pr_merge_commit target_branch pr_api_url repo_slug git_url
         = (ApiPost (check_runs_base_uri repo_slug) (Some ''antiope'')
              (check_run_queued rt target_branch pr_head_ref)
            # fst (run_backport rt pr_number pr_title pr_body pr_base_ref pr_merge_commit
                     target_branch pr_api_url repo_slug git_url None),
            snd (run_backport rt pr_number pr_title pr_body pr_base_ref pr_merge_commit
                   target_branch pr_api_url repo_slug git_url None))"
    using assms
    unfolding process_pr_backport_labels_def
    by (rule_tac prod_eqI) (simp_all add: run_simps reraised_def FORBIDDEN_def)
  have quiet: "filter is_status_call
         (fst (process_pr_backport_labels rt pr_number pr_title pr_body pr_base_ref
                 pr_head_ref pr_merge_commit target_branch pr_api_url repo_slug git_url))
       = []"
    unfolding run run_backport_disabled
    by (simp add: backport_pr_sync_no_status_call split: sum.splits)
  show ?thesis
    using quiet unfolding run run_backport_disabled by simp
qed

theorem check_run_denied_disables_reporting_witness:
  "snd (process_pr_backport_labels
          (demo_runtime (demo_git push_ok)
             (Inl (BadRequest 403 ''Resource not accessible by integration'')))
          42 ''Fix overflow'' (Some ''Details.'') ''main'' ''fix-overflow'' ''3f2c9a1b77''
          ''v1.2'' ''https://api.github.com/repos/o/r/pulls'' ''o/r''
          ''https://github.com/o/r.git'') = Inr ()
   \<and> filter is_status_call
       (fst (process_pr_backport_labels
          (demo_runtime (demo_git push_ok)
             (Inl (BadRequest 403 ''Resource not accessible by integration'')))
          42 ''Fix overflow'' (Some ''Details.'') ''main'' ''fix-overflow'' ''3f2c9a1b77''
          ''v1.2'' ''https://api.github.com/repos/o/r/pulls'' ''o/r''
          ''https://github.com/o/r.git'')) = []
   \<and> filter is_pull_request_post
       (fst (process_pr_backport_labels
          (demo_runtime (demo_git push_ok)
             (Inl (BadRequest 403 ''Resource not accessible by integration'')))
          42 ''Fix overflow'' (Some ''Details.'') ''main'' ''fix-overflow'' ''3f2c9a1b77''
          ''v1.2'' ''https://api.github.com/repos/o/r/pulls'' ''o/r''
          ''https://github.com/o/r.git''))
     = [ApiPost ''https://api.github.com/repos/o/r/pulls'' None
          (pull_request_data 42 ''Fix overflow'' (Some ''Details.'') ''main'' ''3f2c9a1b77''
             ''v1.2'' ''patchback/backports/v1.2/3f2c9a1b77/pr42'')]"
  using check_run_denied_disables_reporting
    [of "demo_runtime (demo_git push_ok)
           (Inl (BadRequest 403 ''Resource not accessible by integration''))"
        "''o/r''" "''v1.2''" "''fix-overflow''"
        "BadRequest 403 ''Resource not accessible by integration''"
        42 "''Fix overflow''" "Some ''Details.''" "''main''" "''3f2c9a1b77''"
        "''https://api.github.com/repos/o/r/pulls''" "''https://github.com/o/r.git''"]
  by (simp add: demo_runtime_def demo_backport_v1_2 cherry_pick_calls_def)



text \<open>
  Claim C4: a run of the orchestrator in which the push is reached and raises. When the
  exception is a \<^verbatim>\<open>GitError\<close> with the text \<^verbatim>\<open>unexpected http status code: 403\<close>,
  the executor ends in a \<^verbatim>\<open>PermissionError\<close> that names the remote and the missing
  permission; any other exception of the push leaves the executor as it is. In both cases
  no pull request is requested.
\<close>

theorem push_failure_classified:
  assumes "Push refspecs token
             \<in> set (fst (process_pr_backport_labels rt pr_number pr_title pr_body pr_base_ref
                            pr_head_ref pr_merge_commit target_branch pr_api_url repo_slug
                            git_url))"
    and "remote_push (git rt) refspecs token = Inl err"
  shows "get_token rt = Inr token
    \<and> refspecs = [''HEAD:refs/heads/''
                   @ backport_pr_branch pr_number pr_merge_commit target_branch]
    \<and> snd (backport_pr_sync (git rt) pr_number pr_merge_commit target_branch repo_slug
             git_url token)
       = Inl (if is_GitError err \<and> str_exn err = ''unexpected http status code: 403''
              then PermissionError
                     (''Current GitHub App installation does not grant sufficient ''
                      @ ''privileges for pushing to '' @ git_url
                      @ ''. `Contents: write` permission is necessary to fix this.'')
              else err)
    \<and> filter is_pull_request_post
         (fst (process_pr_backport_labels rt pr_number pr_title pr_body pr_base_ref
                 pr_head_ref pr_merge_commit target_branch pr_api_url repo_slug git_url))
       = []"
proof -
  from git_call_in_process [OF assms(1)] obtain tok where
    tok: "get_token rt = Inr tok"
    and reached: "Push refspecs token
         \<in> set (fst (backport_pr_sync (git rt) pr_number pr_merge_commit target_branch
                        repo_slug git_url tok))"
    by auto
  from push_reached [OF reached assms(2)] have
    fail: "snd (backport_pr_sync (git rt) pr_number pr_merge_commit target_branch repo_slug
                  git_url tok)
       = Inl (if is_GitError err \<and> str_exn err = ''unexpected http status code: 403''
              then PermissionError (push_denied_message git_url) else err)"
    and refspecs: "refspecs = [''HEAD:refs/heads/''
                   @ backport_pr_branch pr_number pr_merge_commit target_branch]"
    and token: "token = tok"
    by simp_all
  have no_pr: "filter is_pull_request_post
         (fst (process_pr_backport_labels rt pr_number pr_title pr_body pr_base_ref
                 pr_head_ref pr_merge_commit target_branch pr_api_url repo_slug git_url))
       = []"
    using pull_request_post_in_process
      [of _ rt pr_number pr_title pr_body pr_base_ref pr_head_ref pr_merge_commit
          target_branch pr_api_url repo_slug git_url] tok fail
    by (auto simp add: filter_empty_conv)
  from tok fail refspecs token no_pr show ?thesis
    by (simp add: push_denied_message_def)
qed

theorem push_failure_classified_witness:
  "snd (backport_pr_sync (demo_git push_forbidden) 42 ''3f2c9a1b77'' ''v1.2'' ''o/r''
          ''https://github.com/o/r.git'' ''token'')
   = Inl (PermissionError
            (''Current GitHub App installation does not grant sufficient ''
             @ ''privileges for pushing to https://github.com/o/r.git''
             @ ''. `Contents: write` permission is necessary to fix this.''))
   \<and> filter is_pull_request_post
     (fst (process_pr_backport_labels (demo_runtime (demo_git push_forbidden) (Inr 7))
        42 ''Fix overflow'' (Some ''Details.'') ''main'' ''fix-overflow'' ''3f2c9a1b77''
        ''v1.2'' ''https://api.github.com/repos/o/r/pulls'' ''o/r''
        ''https://github.com/o/r.git'')) = []"
proof -
  have reached: "Push [''HEAD:refs/heads/patchback/backports/v1.2/3f2c9a1b77/pr42''] ''token''
      \<in> set (fst (process_pr_backport_labels (demo_runtime (demo_git push_forbidden) (Inr 7))
        42 ''Fix overflow'' (Some ''Details.'') ''main'' ''fix-overflow'' ''3f2c9a1b77''
        ''v1.2'' ''https://api.github.com/repos/o/r/pulls'' ''o/r''
        ''https://github.com/o/r.git''))"
    by (simp add: eval_defs)
  have rejected: "remote_push (git (demo_runtime (demo_git push_forbidden) (Inr 7)))
      [''HEAD:refs/heads/patchback/backports/v1.2/3f2c9a1b77/pr42''] ''token''
      = Inl (GitError ''unexpected http status code: 403'')"
    by (simp add: demo_runtime_def demo_git_def push_forbidden_def)
  from push_failure_classified [OF reached rejected] show ?thesis
    by (simp add: demo_runtime_def)
qed

text \<open>
  Claim C6, as the code has it: once the check run exists, a run of the orchestrator makes
  at most one terminal status call, and exactly one when it returns; a terminal call
  completes the check run as neutral or as success; and a call that completes it as
  success is made only when the executor returned a branch (so its push succeeded) and
  the request for the pull request succeeded. On the paths where an exception leaves the
  orchestrator no terminal call need have been made.
\<close>

theorem one_terminal_transition_on_return:
  assumes "post_check_run rt (check_runs_base_uri repo_slug)
             (check_run_queued rt target_branch pr_head_ref) = Inr check_run_id"
  shows "length (filter is_terminal
           (fst (process_pr_backport_labels rt pr_number pr_title pr_body pr_base_ref
                   pr_head_ref pr_merge_commit target_branch pr_api_url repo_slug git_url)))
         \<le> 1
    \<and> (snd (process_pr_backport_labels rt pr_number pr_title pr_body pr_base_ref
              pr_head_ref pr_merge_commit target_branch pr_api_url repo_slug git_url)
          = Inr () \<longrightarrow>
        length (filter is_terminal
           (fst (process_pr_backport_labels rt pr_number pr_title pr_body pr_base_ref
                   pr_head_ref pr_merge_commit target_branch pr_api_url repo_slug git_url)))
        = 1)
    \<and> (\<forall>ev \<in> set (fst (process_pr_backport_labels rt pr_number pr_title pr_body
                            pr_base_ref pr_head_ref pr_merge_commit target_branch
                            pr_api_url repo_slug git_url)).
          is_terminal ev \<longrightarrow> is_neutral ev \<or> is_success ev)
    \<and> (filter is_success
          (fst (process_pr_backport_labels rt pr_number pr_title pr_body pr_base_ref
                  pr_head_ref pr_merge_commit target_branch pr_api_url repo_slug git_url))
        \<noteq> [] \<longrightarrow>
        (\<exists>token b html_url.
            get_token rt = Inr token
          \<and> snd (backport_pr_sync (git rt) pr_number pr_merge_commit target_branch
                   repo_slug git_url token) = Inr b
          \<and> remote_push (git rt) [''HEAD:refs/heads/'' @ b] token = Inr ()
          \<and> post_pull rt pr_api_url
               (pull_request_data pr_number pr_title pr_body pr_base_ref pr_merge_commit
                  target_branch b) = Inr html_url))"
proof -
  let ?R = "run_backport rt pr_number pr_title pr_body pr_base_ref pr_merge_commit
              target_branch pr_api_url repo_slug git_url
              (Some (check_runs_base_uri repo_slug @ ''/'' @ str_int check_run_id))"
  have run: "process_pr_backport_labels rt pr_number pr_title pr_body pr_base_ref pr_head_ref
           pr_merge_commit target_branch pr_api_url repo_slug git_url
         = (ApiPost (check_runs_base_uri repo_slug) (Some ''antiope'')
              (check_run_queued rt target_branch pr_head_ref) # fst ?R, snd ?R)"
    using assms
    unfolding process_pr_backport_labels_def
    by (rule_tac prod_eqI) (simp_all add: run_simps)
  have pushed: "\<exists>token b html_url.
            get_token rt = Inr token
          \<and> snd (backport_pr_sync (git rt) pr_number pr_merge_commit target_branch
                   repo_slug git_url token) = Inr b
          \<and> remote_push (git rt) [''HEAD:refs/heads/'' @ b] token = Inr ()
          \<and> post_pull rt pr_api_url
               (pull_request_data pr_number pr_title pr_body pr_base_ref pr_merge_commit
                  target_branch b) = Inr html_url"
    if "filter is_success (fst ?R) \<noteq> []"
  proof -
    from terminal_run_backport(3) [OF that] obtain tok b html_url where
      f: "get_token rt = Inr tok"
         "snd (backport_pr_sync (git rt) pr_number pr_merge_commit target_branch
                 repo_slug git_url tok) = Inr b"
         "post_pull rt pr_api_url
               (pull_request_data pr_number pr_title pr_body pr_base_ref pr_merge_commit
                  target_branch b) = Inr html_url"
      by blast
    from backport_pr_sync_success [OF f(2)] have
      "remote_push (git rt) [''HEAD:refs/heads/'' @ b] tok = Inr ()"
      by auto
    with f show ?thesis by blast
  qed
  show ?thesis
    unfolding run
    using terminal_run_backport(1,2,4)
      [of rt pr_number pr_title pr_body pr_base_ref pr_merge_commit target_branch
          pr_api_url repo_slug git_url
          "check_runs_base_uri repo_slug @ ''/'' @ str_int check_run_id"]
      pushed
    by (simp del: status_simps)
qed

theorem one_terminal_transition_on_return_witness:
  "filter is_terminal
     (fst (process_pr_backport_labels (demo_runtime (demo_git push_ok) (Inr 7))
        42 ''Fix overflow'' (Some ''Details.'') ''main'' ''fix-overflow'' ''3f2c9a1b77''
        ''v1.2'' ''https://api.github.com/repos/o/r/pulls'' ''o/r''
        ''https://github.com/o/r.git''))
   = [ApiPatch ''/repos/o/r/check-runs/7'' (Some ''antiope'')
        (check_completed ''Backport to v1.2'' ''success'' ''2020-01-01T00:00:09Z''
           ''Backport to v1.2: backport PR created''
           ''Backported as https://github.com/o/r/pull/43''
           ''Backport PR branch: `patchback/backports/v1.2/3f2c9a1b77/pr42'')]
   \<and> length (filter is_terminal
     (fst (process_pr_backport_labels (demo_runtime (demo_git push_ok) (Inr 7))
        42 ''Fix overflow'' (Some ''Details.'') ''main'' ''fix-overflow'' ''3f2c9a1b77''
        ''v1.2'' ''https://api.github.com/repos/o/r/pulls'' ''o/r''
        ''https://github.com/o/r.git''))) \<le> 1"
proof -
  have created: "post_check_run (demo_runtime (demo_git push_ok) (Inr 7))
      (check_runs_base_uri ''o/r'')
      (check_run_queued (demo_runtime (demo_git push_ok) (Inr 7)) ''v1.2'' ''fix-overflow'')
      = Inr 7"
    by (simp add: demo_runtime_def)
  have trace: "filter is_terminal
     (fst (process_pr_backport_labels (demo_runtime (demo_git push_ok) (Inr 7))
        42 ''Fix overflow'' (Some ''Details.'') ''main'' ''fix-overflow'' ''3f2c9a1b77''
        ''v1.2'' ''https://api.github.com/repos/o/r/pulls'' ''o/r''
        ''https://github.com/o/r.git''))
   = [ApiPatch ''/repos/o/r/check-runs/7'' (Some ''antiope'')
        (check_completed ''Backport to v1.2'' ''success'' ''2020-01-01T00:00:09Z''
           ''Backport to v1.2: backport PR created''
           ''Backported as https://github.com/o/r/pull/43''
           ''Backport PR branch: `patchback/backports/v1.2/3f2c9a1b77/pr42'')]"
    by (simp add: eval_defs)
  from one_terminal_transition_on_return [OF created] trace show ?thesis
    by blast
qed

text \<open>
  Claim C6 as the specification words it, for all execution paths, fails: when the push
  raises a \<^verbatim>\<open>GitError\<close> that is not the 403, the exception leaves the orchestrator and
  the check run that was created is never completed.
\<close>

theorem no_terminal_transition_counterexample:
  "post_check_run (demo_runtime (demo_git push_broken_for_v1_2) (Inr 7))
      (check_runs_base_uri ''o/r'')
      (check_run_queued (demo_runtime (demo_git push_broken_for_v1_2) (Inr 7)) ''v1.2''
         ''fix-overflow'')
     = Inr 7
   \<and> snd (process_pr_backport_labels (demo_runtime (demo_git push_broken_for_v1_2) (Inr 7))
        5 ''Fix overflow'' (Some ''Details.'') ''main'' ''fix-overflow'' ''3f2c9a1b77''
        ''v1.2'' ''https://api.github.com/repos/o/r/pulls'' ''o/r''
        ''https://github.com/o/r.git'')
     = Inl (GitError ''connection reset'')
   \<and> filter is_terminal
     (fst (process_pr_backport_labels (demo_runtime (demo_git push_broken_for_v1_2) (Inr 7))
        5 ''Fix overflow'' (Some ''Details.'') ''main'' ''fix-overflow'' ''3f2c9a1b77''
        ''v1.2'' ''https://api.github.com/repos/o/r/pulls'' ''o/r''
        ''https://github.com/o/r.git''))
     = []"
  by (simp add: eval_defs)



text \<open>
  Claim C8, as the code has it: for a merged pull request the handler takes one target
  branch for each label that starts with \<^verbatim>\<open>backport-\<close> (the label without that prefix,
  in label order) and processes them one after the other. The calls of the handler are
  the calls of the branches processed: every branch up to and including the first whose
  processing ends in an exception, and that exception leaves the handler. So when every
  branch returns, which the classified failures do, every branch is processed and the
  handler returns.
\<close>

theorem merge_fans_out_until_exception:
  assumes "pull_merged pr"
  shows "target_branches pr
         = map (drop 9) (filter (\<lambda>label. take 9 label = ''backport-'') (pull_labels pr))
    \<and> fst (on_merge_of_labeled_pr rt number pr repo)
      = concat (map (\<lambda>T. fst (backport_to rt number pr repo T))
          (takeWhile (\<lambda>T. snd (backport_to rt number pr repo T) = Inr ())
             (target_branches pr)
           @ take 1 (dropWhile (\<lambda>T. snd (backport_to rt number pr repo T) = Inr ())
                       (target_branches pr))))
    \<and> snd (on_merge_of_labeled_pr rt number pr repo)
      = (case dropWhile (\<lambda>T. snd (backport_to rt number pr repo T) = Inr ())
                (target_branches pr) of
           [] \<Rightarrow> Inr ()
         | T # rest \<Rightarrow> snd (backport_to rt number pr repo T))
    \<and> ((\<forall>T \<in> set (target_branches pr). snd (backport_to rt number pr repo T) = Inr ()) \<longrightarrow>
         on_merge_of_labeled_pr rt number pr repo
         = (concat (map (\<lambda>T. fst (backport_to rt number pr repo T)) (target_branches pr)),
            Inr ()))"
proof -
  have len: "length ''backport-'' = (9::nat)"
    by simp
  have labels: "target_branches pr
         = map (drop 9) (filter (\<lambda>label. take 9 label = ''backport-'') (pull_labels pr))"
    unfolding target_branches_def startswith_def BACKPORT_LABEL_LEN_def
      BACKPORT_LABEL_PREFIX_def len ..
  have run: "on_merge_of_labeled_pr rt number pr repo
             = process_target_branches rt number pr repo (target_branches pr)"
    using assms by (simp add: on_merge_of_labeled_pr_def)
  have all: "on_merge_of_labeled_pr rt number pr repo
         = (concat (map (\<lambda>T. fst (backport_to rt number pr repo T)) (target_branches pr)),
            Inr ())"
    if "\<forall>T \<in> set (target_branches pr). snd (backport_to rt number pr repo T) = Inr ()"
  proof -
    from that have
      tw: "takeWhile (\<lambda>T. snd (backport_to rt number pr repo T) = Inr ())
             (target_branches pr) = target_branches pr"
      and dw: "dropWhile (\<lambda>T. snd (backport_to rt number pr repo T) = Inr ())
             (target_branches pr) = []"
      by simp_all
    show ?thesis
      unfolding run process_target_branches_run tw dw by simp
  qed
  have trace: "fst (on_merge_of_labeled_pr rt number pr repo)
      = concat (map (\<lambda>T. fst (backport_to rt number pr repo T))
          (takeWhile (\<lambda>T. snd (backport_to rt number pr repo T) = Inr ())
             (target_branches pr)
           @ take 1 (dropWhile (\<lambda>T. snd (backport_to rt number pr repo T) = Inr ())
                       (target_branches pr))))"
    unfolding run process_target_branches_run by simp
  have result: "snd (on_merge_of_labeled_pr rt number pr repo)
      = (case dropWhile (\<lambda>T. snd (backport_to rt number pr repo T) = Inr ())
                (target_branches pr) of
           [] \<Rightarrow> Inr ()
         | T # rest \<Rightarrow> snd (backport_to rt number pr repo T))"
    unfolding run process_target_branches_run by simp
  from labels trace result all show ?thesis
    by blast
qed

theorem merge_fans_out_until_exception_witness:
  "target_branches (demo_pull_request [''bug'', ''backport-v9.9'', ''backport-v1.3''])
     = [''v9.9'', ''v1.3'']
   \<and> snd (on_merge_of_labeled_pr (demo_runtime (demo_git push_ok) (Inr 7)) 42
          (demo_pull_request [''bug'', ''backport-v9.9'', ''backport-v1.3''])
          demo_repository) = Inr ()
   \<and> filter is_pull_request_post
       (fst (on_merge_of_labeled_pr (demo_runtime (demo_git push_ok) (Inr 7)) 42
               (demo_pull_request [''bug'', ''backport-v9.9'', ''backport-v1.3''])
               demo_repository))
     = [ApiPost ''https://api.github.com/repos/o/r/pulls'' None
          (pull_request_data 42 ''Fix overflow'' (Some ''Details.'') ''main'' ''3f2c9a1b77''
             ''v1.3'' ''patchback/backports/v1.3/3f2c9a1b77/pr42'')]"
proof -
  have m: "pull_merged (demo_pull_request [''bug'', ''backport-v9.9'', ''backport-v1.3''])"
    by (simp add: demo_pull_request_def)
  have ok: "\<forall>T \<in> set (target_branches
                        (demo_pull_request [''bug'', ''backport-v9.9'', ''backport-v1.3''])).
      snd (backport_to (demo_runtime (demo_git push_ok) (Inr 7)) 42
             (demo_pull_request [''bug'', ''backport-v9.9'', ''backport-v1.3''])
             demo_repository T) = Inr ()"
    by (simp add: demo_targets demo_fan_out_v9_9 demo_fan_out_v1_3)
  from merge_fans_out_until_exception [OF m] ok have
    "on_merge_of_labeled_pr (demo_runtime (demo_git push_ok) (Inr 7)) 42
       (demo_pull_request [''bug'', ''backport-v9.9'', ''backport-v1.3'']) demo_repository
     = (concat (map (\<lambda>T. fst (backport_to (demo_runtime (demo_git push_ok) (Inr 7)) 42
                  (demo_pull_request [''bug'', ''backport-v9.9'', ''backport-v1.3''])
                  demo_repository T))
          (target_branches
             (demo_pull_request [''bug'', ''backport-v9.9'', ''backport-v1.3'']))),
        Inr ())"
    by blast
  then show ?thesis
    by (simp add: demo_targets demo_fan_out_v9_9 demo_fan_out_v1_3)
qed

text \<open>
  Claim C8 as the specification words it, for any failure, fails: with the labels
  \<^verbatim>\<open>backport-v1.2\<close> and \<^verbatim>\<open>backport-v1.3\<close> and a push that is broken for \<open>v1.2\<close>
  only, the exception of the first branch leaves the handler, and \<open>v1.3\<close>, which would
  have succeeded alone, is never looked up and gets no pull request.
\<close>

theorem merge_stops_at_exception_counterexample:
  "target_branches (demo_pull_request [''backport-v1.2'', ''backport-v1.3''])
     = [''v1.2'', ''v1.3'']
   \<and> snd (backport_to (demo_runtime (demo_git push_broken_for_v1_2) (Inr 7)) 5
          (demo_pull_request [''backport-v1.2'', ''backport-v1.3'']) demo_repository
          ''v1.3'') = Inr ()
   \<and> snd (on_merge_of_labeled_pr (demo_runtime (demo_git push_broken_for_v1_2) (Inr 7)) 5
          (demo_pull_request [''backport-v1.2'', ''backport-v1.3'']) demo_repository)
     = Inl (GitError ''connection reset'')
   \<and> BranchesGetitem ''origin/v1.3''
     \<notin> set (fst (on_merge_of_labeled_pr
                    (demo_runtime (demo_git push_broken_for_v1_2) (Inr 7)) 5
                    (demo_pull_request [''backport-v1.2'', ''backport-v1.3''])
                    demo_repository))
   \<and> filter is_pull_request_post
       (fst (on_merge_of_labeled_pr
               (demo_runtime (demo_git push_broken_for_v1_2) (Inr 7)) 5
               (demo_pull_request [''backport-v1.2'', ''backport-v1.3''])
               demo_repository)) = []"
proof -
  have run: "on_merge_of_labeled_pr (demo_runtime (demo_git push_broken_for_v1_2) (Inr 7)) 5
          (demo_pull_request [''backport-v1.2'', ''backport-v1.3'']) demo_repository
     = (fst (backport_to (demo_runtime (demo_git push_broken_for_v1_2) (Inr 7)) 5
          (demo_pull_request [''backport-v1.2'', ''backport-v1.3'']) demo_repository
          ''v1.2''), Inl (GitError ''connection reset''))"
    unfolding on_merge_of_labeled_pr_def demo_targets
    by (intro prod_eqI)
       (simp_all add: run_simps demo_broken_v1_2(1), simp_all add: demo_pull_request_def)
  show ?thesis
    unfolding run by (simp add: demo_targets demo_broken_v1_2 demo_broken_v1_3)
qed

end
